theory Spec2Isabelle
  imports Complex_Main "HOL-Library.Sublist" "HOL-Library.Char_ord" "HOL-Library.List_Lexorder"
begin

section \<open>Python strings\<close>

text \<open>
  A Python \<open>str\<close> is modelled as a \<^typ>\<open>string\<close> whose characters are the
  code points below 256, and the character classes are Python's on these code points.
  \<open>str.lower()\<close> maps \<open>A..Z\<close> to \<open>a..z\<close> and the capital letters 192 to 222
  (215, the multiplication sign, apart) to the small letters 32 above them;
  \<open>k in s\<close> on two strings is the contiguous-substring test;
  \<open>str.strip()\<close> removes leading and trailing whitespace, the codes 9 to 13, 28 to 32,
  133 and 160;
  \<open>str.isdigit()\<close> holds of a non-empty string of digits, which are \<open>0..9\<close> and
  the superscript digits 178, 179 and 185; the \<open>\d\<close> of a regular expression
  matches \<open>0..9\<close> alone.
\<close>

definition lower_char :: "char \<Rightarrow> char" where
  "lower_char c =
     (let n = (of_char c :: nat)
      in if (65 \<le> n \<and> n \<le> 90) \<or> (192 \<le> n \<and> n \<le> 222 \<and> n \<noteq> 215)
         then char_of (n + 32) else c)"

definition lower :: "string \<Rightarrow> string" where
  "lower s = map lower_char s"

fun startswith :: "'a list \<Rightarrow> 'a list \<Rightarrow> bool" where
  "startswith s [] = True"
| "startswith [] (p # ps) = False"
| "startswith (c # cs) (p # ps) = (c = p \<and> startswith cs ps)"

definition is_space :: "char \<Rightarrow> bool" where
  "is_space c =
     (let n = (of_char c :: nat)
      in (9 \<le> n \<and> n \<le> 13) \<or> (28 \<le> n \<and> n \<le> 32) \<or> n = 133 \<or> n = 160)"

definition strip :: "string \<Rightarrow> string" where
  "strip s = rev (dropWhile is_space (rev (dropWhile is_space s)))"

definition is_decimal_char :: "char \<Rightarrow> bool" where
  "is_decimal_char c = (let n = (of_char c :: nat) in 48 \<le> n \<and> n \<le> 57)"

definition is_digit_char :: "char \<Rightarrow> bool" where
  "is_digit_char c =
     (let n = (of_char c :: nat) in (48 \<le> n \<and> n \<le> 57) \<or> n = 178 \<or> n = 179 \<or> n = 185)"

definition isdigit :: "string \<Rightarrow> bool" where
  "isdigit s = (s \<noteq> [] \<and> list_all is_digit_char s)"

fun py_in :: "'a list \<Rightarrow> 'a list \<Rightarrow> bool" where
  "py_in k [] = (k = [])"
| "py_in k (c # cs) = (startswith (c # cs) k \<or> py_in k cs)"

section \<open>Python values and exceptions\<close>

text \<open>
  The values that travel through the barcode service are what \<open>json.loads\<close> and
  \<open>response.json()\<close> produce: \<open>None\<close>, booleans, numbers, strings, lists and
  dictionaries with string keys (an association list; \<open>json.loads\<close> yields distinct
  keys). Exceptions are values of \<open>exn\<close>; a computation that may raise returns
  \<open>exn + 'a\<close>, with \<open>Inl\<close> the raised exception.
\<close>

datatype json =
    JNull
  | JBool bool
  | JNum real
  | JStr string
  | JArr "json list"
  | JObj "(string \<times> json) list"

datatype exn =
    HTTPError
  | JSONDecodeError
  | AttributeError
  | TypeError
  | RedisError
  | ValidationError
  | IntegrityError
  | DataError
  | HTTPException nat

text \<open>Truthiness, as \<open>if x:\<close> and \<open>not x\<close> evaluate it.\<close>

fun truthy :: "json \<Rightarrow> bool" where
  "truthy JNull = False"
| "truthy (JBool b) = b"
| "truthy (JNum r) = (r \<noteq> 0)"
| "truthy (JStr s) = (s \<noteq> [])"
| "truthy (JArr xs) = (xs \<noteq> [])"
| "truthy (JObj kvs) = (kvs \<noteq> [])"

text \<open>\<open>d.get(k, default)\<close> on a dictionary's items.\<close>

definition dict_get :: "(string \<times> json) list \<Rightarrow> string \<Rightarrow> json \<Rightarrow> json" where
  "dict_get kvs k dflt = (case map_of kvs k of Some v \<Rightarrow> v | None \<Rightarrow> dflt)"

text \<open>\<open>x.get(k, default)\<close> on any value: only a dictionary has the method.\<close>

fun py_get :: "json \<Rightarrow> string \<Rightarrow> json \<Rightarrow> exn + json" where
  "py_get (JObj kvs) k dflt = Inr (dict_get kvs k dflt)"
| "py_get _ k dflt = Inl AttributeError"

text \<open>\<open>x.strip()\<close> on any value: only a string has the method.\<close>

fun py_strip :: "json \<Rightarrow> exn + string" where
  "py_strip (JStr s) = Inr (strip s)"
| "py_strip _ = Inl AttributeError"

text \<open>
  \<open>for tag in x\<close>: a list yields its elements, a string its characters, a dictionary
  its keys; the other values are not iterable.
\<close>

fun py_iter :: "json \<Rightarrow> exn + json list" where
  "py_iter (JArr xs) = Inr xs"
| "py_iter (JStr s) = Inr (map (\<lambda>c. JStr [c]) s)"
| "py_iter (JObj kvs) = Inr (map (\<lambda>kv. JStr (fst kv)) kvs)"
| "py_iter _ = Inl TypeError"

text \<open>\<open>x != 1\<close>: a number is compared by value and \<open>True == 1\<close>.\<close>

fun py_ne_1 :: "json \<Rightarrow> bool" where
  "py_ne_1 (JNum r) = (r \<noteq> 1)"
| "py_ne_1 (JBool b) = (\<not> b)"
| "py_ne_1 _ = True"

text \<open>
  A text that is to be decoded as JSON (an HTTP response body, a Redis value) is either
  the encoding \<open>json.dumps(v)\<close> of a value, which \<open>json.loads\<close> decodes to \<open>v\<close>
  again, or a text that is not JSON, on which the decoder raises.
\<close>

datatype payload = Encoded json | Garbage string

fun json_loads :: "payload \<Rightarrow> exn + json" where
  "json_loads (Encoded v) = Inr v"
| "json_loads (Garbage s) = Inl JSONDecodeError"

definition json_dumps :: "json \<Rightarrow> payload" where
  "json_dumps v = Encoded v"

text \<open>Truthiness of the text itself: \<open>json.dumps\<close> never returns the empty string.\<close>

fun nonempty_text :: "payload \<Rightarrow> bool" where
  "nonempty_text (Encoded v) = True"
| "nonempty_text (Garbage s) = (s \<noteq> [])"

section \<open>Product category mapping (barcode\_service.py)\<close>

text \<open>
  The dictionary literal of \<open>BarcodeService._map_category\<close>, as the list of its
  items in insertion order, which is the order in which \<open>mapping.items()\<close> yields them.
\<close>

definition mapping :: "(string \<times> string) list" where
  "mapping =
    [(''dairy'', ''Dairy''), (''milk'', ''Dairy''), (''cheese'', ''Dairy''),
     (''yogurt'', ''Dairy''), (''butter'', ''Dairy''),
     (''meat'', ''Meat''), (''beef'', ''Meat''), (''pork'', ''Meat''),
     (''chicken'', ''Meat''), (''turkey'', ''Meat''), (''sausage'', ''Meat''),
     (''fish'', ''Seafood''), (''seafood'', ''Seafood''), (''shrimp'', ''Seafood''),
     (''tuna'', ''Seafood''), (''salmon'', ''Seafood''),
     (''fruit'', ''Produce''), (''vegetable'', ''Produce''), (''salad'', ''Produce''),
     (''bread'', ''Bakery''), (''pastry'', ''Bakery''), (''cake'', ''Bakery''),
     (''frozen'', ''Frozen''), (''ice-cream'', ''Frozen''),
     (''beverage'', ''Beverages''), (''drink'', ''Beverages''), (''juice'', ''Beverages''),
     (''water'', ''Beverages''), (''soda'', ''Beverages''), (''coffee'', ''Beverages''),
     (''tea'', ''Beverages''),
     (''sauce'', ''Condiments''), (''condiment'', ''Condiments''),
     (''ketchup'', ''Condiments''), (''mustard'', ''Condiments''),
     (''mayonnaise'', ''Condiments''),
     (''snack'', ''Snacks''), (''chip'', ''Snacks''), (''cookie'', ''Snacks''),
     (''cracker'', ''Snacks''), (''candy'', ''Snacks''), (''chocolate'', ''Snacks''),
     (''cereal'', ''Pantry''), (''pasta'', ''Pantry''), (''rice'', ''Pantry''),
     (''canned'', ''Pantry''), (''flour'', ''Pantry''), (''sugar'', ''Pantry''),
     (''oil'', ''Pantry'')]"

text \<open>The inner loop \<open>for keyword, category in mapping.items()\<close>.\<close>

fun match_keyword :: "(string \<times> string) list \<Rightarrow> string \<Rightarrow> string option" where
  "match_keyword [] tag_lower = None"
| "match_keyword ((keyword, category) # rest) tag_lower =
     (if py_in keyword tag_lower then Some category else match_keyword rest tag_lower)"

text \<open>
  The outer loop \<open>for tag in categories_tags\<close> with \<open>tag_lower = tag.lower()\<close>
  (only a string has the method), and the final \<open>return "Other"\<close>.
\<close>

fun map_category_loop :: "(string \<times> string) list \<Rightarrow> json list \<Rightarrow> exn + string" where
  "map_category_loop m [] = Inr ''Other''"
| "map_category_loop m (JStr tag # tags) =
     (case match_keyword m (lower tag) of
        Some category \<Rightarrow> Inr category
      | None \<Rightarrow> map_category_loop m tags)"
| "map_category_loop m (_ # tags) = Inl AttributeError"

definition map_category :: "json list \<Rightarrow> exn + string" where
  "map_category categories_tags = map_category_loop mapping categories_tags"

text \<open>
  The category mapping as the specification words it: the first tag whose lowercase form
  contains a keyword of the table decides, through the first such keyword in table order.
\<close>

definition first_keyword :: "string \<Rightarrow> (string \<times> string) option" where
  "first_keyword tag = find (\<lambda>kc. sublist (fst kc) (lower tag)) mapping"

definition spec_category :: "string list \<Rightarrow> string" where
  "spec_category tags =
     (case find (\<lambda>tag. first_keyword tag \<noteq> None) tags of
        None \<Rightarrow> ''Other''
      | Some tag \<Rightarrow> (case first_keyword tag of Some kc \<Rightarrow> snd kc | None \<Rightarrow> ''Other''))"

section \<open>The barcode service (barcode\_service.py)\<close>

text \<open>
  What surrounds one call of the service: the clock, whether the Redis server answers a
  \<open>GET\<close> and a \<open>SETEX\<close> or the client raises, and what the HTTP client does
  with a request for a URL: it raises an \<open>httpx.HTTPError\<close> (connection failure,
  timeout) or returns a response with a status code and a body. \<open>http_get\<close> is
  the request of the barcode service, \<open>http_get_params\<close> the request with query
  parameters of the recipe service.
\<close>

datatype http_result = Raises_HTTPError | Response nat payload

record env =
  now :: nat
  redis_get_up :: bool
  redis_setex_up :: bool
  http_get :: "string \<Rightarrow> http_result"
  http_get_params :: "string \<Rightarrow> (string \<times> json) list \<Rightarrow> http_result"

text \<open>
  The state the service acts on: the Redis keys with their values and expiry instants,
  and the log of the requests sent upstream (a record of the calls of
  \<open>http_client.get\<close>, kept to state which lookups query the provider).
\<close>

record world =
  cache :: "string \<Rightarrow> (payload \<times> nat) option"
  requests :: "string list"

definition redis_get :: "env \<Rightarrow> world \<Rightarrow> string \<Rightarrow> exn + payload option" where
  "redis_get e w k =
     (if \<not> redis_get_up e then Inl RedisError
      else Inr (case cache w k of
                  None \<Rightarrow> None
                | Some (v, expires) \<Rightarrow> if now e < expires then Some v else None))"

definition redis_setex :: "env \<Rightarrow> world \<Rightarrow> string \<Rightarrow> nat \<Rightarrow> payload \<Rightarrow> exn + world" where
  "redis_setex e w k ttl v =
     (if \<not> redis_setex_up e then Inl RedisError
      else Inr (w\<lparr>cache := (cache w)(k \<mapsto> (v, now e + ttl))\<rparr>))"

text \<open>\<open>BarcodeService._parse_product\<close>.\<close>

fun parse_product :: "json \<Rightarrow> string \<Rightarrow> exn + json" where
  "parse_product (JObj product) barcode =
     (case py_strip (dict_get product ''product_name'' (JStr [])) of
        Inl ex \<Rightarrow> Inl ex
      | Inr name \<Rightarrow>
          if name = [] then Inr JNull
          else
            (case py_iter (dict_get product ''categories_tags'' (JArr [])) of
               Inl ex \<Rightarrow> Inl ex
             | Inr categories_tags \<Rightarrow>
                 (case map_category categories_tags of
                    Inl ex \<Rightarrow> Inl ex
                  | Inr suggested_category \<Rightarrow>
                      Inr (JObj
                        [(''barcode'', JStr barcode),
                         (''name'', JStr name),
                         (''brand'', dict_get product ''brands'' (JStr [])),
                         (''categories'', dict_get product ''categories'' (JStr [])),
                         (''suggested_category'', JStr suggested_category),
                         (''quantity_string'', dict_get product ''quantity'' (JStr [])),
                         (''image_url'', dict_get product ''image_front_url'' (JStr [])),
                         (''ingredients_text'', dict_get product ''ingredients_text'' (JStr [])),
                         (''nutriscore_grade'', dict_get product ''nutriscore_grade'' (JStr []))]))))"
| "parse_product _ barcode = Inl AttributeError"

text \<open>
  \<open>BarcodeService._query_open_food_facts\<close>. Only the call of the client is inside the
  \<open>try\<close>; \<open>response.json()\<close> and the reads of the payload are not.
\<close>

definition product_url :: "string \<Rightarrow> string" where
  "product_url barcode = ''https://world.openfoodfacts.org/api/v2/product/'' @ barcode"

definition query_open_food_facts :: "env \<Rightarrow> world \<Rightarrow> string \<Rightarrow> (exn + json) \<times> world" where
  "query_open_food_facts e w barcode =
     (let url = product_url barcode;
          w' = w\<lparr>requests := requests w @ [url]\<rparr>
      in case http_get e url of
           Raises_HTTPError \<Rightarrow> (Inr JNull, w')
         | Response status_code body \<Rightarrow>
             if status_code \<noteq> 200 then (Inr JNull, w')
             else
               (case json_loads body of
                  Inl ex \<Rightarrow> (Inl ex, w')
                | Inr data \<Rightarrow>
                    (case py_get data ''status'' JNull of
                       Inl ex \<Rightarrow> (Inl ex, w')
                     | Inr st \<Rightarrow>
                         if py_ne_1 st then (Inr JNull, w')
                         else
                           (case py_get data ''product'' (JObj []) of
                              Inl ex \<Rightarrow> (Inl ex, w')
                            | Inr product \<Rightarrow> (parse_product product barcode, w')))))"

text \<open>
  \<open>BarcodeService.lookup\<close>, step 1: the first \<open>try\<close> block. It returns the cached
  data when the read succeeds, the text is non-empty and decodes; \<open>except Exception: pass\<close>
  and a falsy \<open>cached\<close> both fall through, which is the result \<open>None\<close> here.
\<close>

definition cache_read :: "env \<Rightarrow> world \<Rightarrow> string \<Rightarrow> json option" where
  "cache_read e w key =
     (case redis_get e w key of
        Inl ex \<Rightarrow> None
      | Inr None \<Rightarrow> None
      | Inr (Some cached) \<Rightarrow>
          if nonempty_text cached then
            (case json_loads cached of Inl ex \<Rightarrow> None | Inr data \<Rightarrow> Some data)
          else None)"

text \<open>
  Step 3: the second \<open>try\<close> block. A found product is cached for 7 days, a miss for
  one hour; \<open>except Exception: pass\<close> leaves the state as it was.
\<close>

definition cache_write :: "env \<Rightarrow> world \<Rightarrow> string \<Rightarrow> json \<Rightarrow> world" where
  "cache_write e w key product =
     (case (if truthy product
            then redis_setex e w key 604800 (json_dumps product)
            else redis_setex e w key 3600 (json_dumps JNull)) of
        Inl ex \<Rightarrow> w
      | Inr w' \<Rightarrow> w')"

text \<open>The key \<open>f"barcode:{barcode}"\<close>.\<close>

definition cache_key :: "string \<Rightarrow> string" where
  "cache_key barcode = ''barcode:'' @ barcode"

definition lookup :: "env \<Rightarrow> world \<Rightarrow> string \<Rightarrow> (exn + json) \<times> world" where
  "lookup e w barcode =
     (case cache_read e w (cache_key barcode) of
        Some data \<Rightarrow> (Inr data, w)
      | None \<Rightarrow>
          (case query_open_food_facts e w barcode of
             (Inl ex, w') \<Rightarrow> (Inl ex, w')
           | (Inr product, w') \<Rightarrow>
               (Inr product, cache_write e w' (cache_key barcode) product)))"

section \<open>The barcode endpoint (endpoints/barcode.py)\<close>

record BarcodeProductResponse =
  bp_barcode :: string
  bp_name :: string
  bp_brand :: "string option"
  bp_categories :: "string option"
  bp_suggested_category :: string
  bp_quantity_string :: "string option"
  bp_image_url :: "string option"
  bp_ingredients_text :: "string option"
  bp_nutriscore_grade :: "string option"
  bp_source :: string

text \<open>
  The validation of one keyword argument by the response schema: a \<open>str\<close> field takes
  a string, an \<open>Optional[str]\<close> field a string or \<open>None\<close>; a field that is not
  passed takes its default, and a required one raises.
\<close>

fun field_str :: "json option \<Rightarrow> string option \<Rightarrow> exn + string" where
  "field_str (Some (JStr s)) dflt = Inr s"
| "field_str (Some _) dflt = Inl ValidationError"
| "field_str None (Some d) = Inr d"
| "field_str None None = Inl ValidationError"

fun field_opt_str :: "json option \<Rightarrow> exn + string option" where
  "field_opt_str (Some (JStr s)) = Inr (Some s)"
| "field_opt_str (Some JNull) = Inr None"
| "field_opt_str (Some _) = Inl ValidationError"
| "field_opt_str None = Inr None"

definition bind :: "exn + 'a \<Rightarrow> ('a \<Rightarrow> exn + 'b) \<Rightarrow> exn + 'b" where
  "bind m f = (case m of Inl ex \<Rightarrow> Inl ex | Inr x \<Rightarrow> f x)"

text \<open>
  \<open>BarcodeProductResponse(**result, source="open_food_facts")\<close>: a key \<open>source\<close> in
  \<open>result\<close> is a repeated keyword argument.
\<close>

definition make_response :: "(string \<times> json) list \<Rightarrow> exn + BarcodeProductResponse" where
  "make_response result =
     (if map_of result ''source'' \<noteq> None then Inl TypeError
      else
        bind (field_str (map_of result ''barcode'') None) (\<lambda>barcode.
        bind (field_str (map_of result ''name'') None) (\<lambda>name.
        bind (field_opt_str (map_of result ''brand'')) (\<lambda>brand.
        bind (field_opt_str (map_of result ''categories'')) (\<lambda>categories.
        bind (field_str (map_of result ''suggested_category'') (Some ''Other'')) (\<lambda>suggested_category.
        bind (field_opt_str (map_of result ''quantity_string'')) (\<lambda>quantity_string.
        bind (field_opt_str (map_of result ''image_url'')) (\<lambda>image_url.
        bind (field_opt_str (map_of result ''ingredients_text'')) (\<lambda>ingredients_text.
        bind (field_opt_str (map_of result ''nutriscore_grade'')) (\<lambda>nutriscore_grade.
          Inr \<lparr>bp_barcode = barcode, bp_name = name, bp_brand = brand,
               bp_categories = categories, bp_suggested_category = suggested_category,
               bp_quantity_string = quantity_string, bp_image_url = image_url,
               bp_ingredients_text = ingredients_text, bp_nutriscore_grade = nutriscore_grade,
               bp_source = ''open_food_facts''\<rparr>))))))))))"

text \<open>
  What the endpoint does with the service's answer: \<open>not result or not result.get("name")\<close>
  raises the 404, and a truthy answer that is not a dictionary has no \<open>get\<close>.
\<close>

definition respond :: "json \<Rightarrow> exn + BarcodeProductResponse" where
  "respond result =
     (if \<not> truthy result then Inl (HTTPException 404)
      else
        (case result of
           JObj kvs \<Rightarrow>
             if \<not> truthy (dict_get kvs ''name'' JNull) then Inl (HTTPException 404)
             else make_response kvs
         | _ \<Rightarrow> Inl AttributeError))"

definition lookup_barcode :: "env \<Rightarrow> world \<Rightarrow> string \<Rightarrow> (exn + BarcodeProductResponse) \<times> world" where
  "lookup_barcode e w barcode =
     (let cleaned = strip barcode
      in if \<not> isdigit cleaned \<or> length cleaned \<notin> {8, 12, 13, 14}
         then (Inl (HTTPException 400), w)
         else
           (case lookup e w cleaned of
              (Inl ex, w') \<Rightarrow> (Inl ex, w')
            | (Inr result, w') \<Rightarrow> (respond result, w')))"

text \<open>
  The barcode pattern of the specification,
  \<open>^\d{8}$|^\d{12}$|^\d{13}$|^\d{14}$\<close>: all characters among \<open>0..9\<close>, of length
  8, 12, 13 or 14.
\<close>

definition matches_barcode_pattern :: "string \<Rightarrow> bool" where
  "matches_barcode_pattern s = (list_all is_decimal_char s \<and> length s \<in> {8, 12, 13, 14})"


section \<open>The recipe service (spoonacular\_service.py)\<close>

text \<open>
  \<open>str(n)\<close> of an integer, \<open>sep.join(xs)\<close>, and \<open>sorted(xs)\<close> on strings, which
  orders them lexicographically by character code.
\<close>

fun digits :: "nat \<Rightarrow> string" where
  "digits n = (if n < 10 then [char_of (48 + n)] else digits (n div 10) @ [char_of (48 + n mod 10)])"

definition str_int :: "int \<Rightarrow> string" where
  "str_int i = (if i < 0 then CHR ''-'' # digits (nat (- i)) else digits (nat i))"

fun py_join :: "string \<Rightarrow> string list \<Rightarrow> string" where
  "py_join sep [] = []"
| "py_join sep [x] = x"
| "py_join sep (x # y # ys) = x @ sep @ py_join sep (y # ys)"

definition py_sorted :: "string list \<Rightarrow> string list" where
  "py_sorted xs = sort xs"

text \<open>The cache key of \<open>search_recipes\<close>: \<open>x or ''\<close> is empty for \<open>None\<close>, for
  the empty string, the empty list and zero.\<close>

definition search_cache_key ::
  "string option \<Rightarrow> string list option \<Rightarrow> string option \<Rightarrow> int option \<Rightarrow> int \<Rightarrow> int
     \<Rightarrow> string" where
  "search_cache_key query ingredients diet max_ready_time number offset =
     ''recipes:search:'' @
       py_join '':''
         [''q:'' @ (case query of None \<Rightarrow> [] | Some q \<Rightarrow> q),
          ''i:'' @ (case ingredients of
                      None \<Rightarrow> []
                    | Some xs \<Rightarrow> if xs \<noteq> [] then py_join '','' (py_sorted xs) else []),
          ''d:'' @ (case diet of None \<Rightarrow> [] | Some d \<Rightarrow> d),
          ''t:'' @ (case max_ready_time of
                      None \<Rightarrow> []
                    | Some t \<Rightarrow> if t \<noteq> 0 then str_int t else []),
          ''n:'' @ str_int number,
          ''o:'' @ str_int offset]"

text \<open>The request parameters: the five fixed entries, then the filters that are truthy.\<close>

definition search_params ::
  "string option \<Rightarrow> string option \<Rightarrow> string list option \<Rightarrow> string option \<Rightarrow> int option
     \<Rightarrow> int \<Rightarrow> int \<Rightarrow> (string \<times> json) list" where
  "search_params api_key query ingredients diet max_ready_time number offset =
     [(''apiKey'', (case api_key of None \<Rightarrow> JNull | Some k \<Rightarrow> JStr k)),
      (''number'', JNum (of_int (min number 100))),
      (''offset'', JNum (of_int offset)),
      (''addRecipeInformation'', JBool True),
      (''fillIngredients'', JBool True)]
     @ (case query of None \<Rightarrow> [] | Some q \<Rightarrow> if q \<noteq> [] then [(''query'', JStr q)] else [])
     @ (case ingredients of
          None \<Rightarrow> []
        | Some xs \<Rightarrow> if xs \<noteq> [] then [(''includeIngredients'', JStr (py_join '','' xs))] else [])
     @ (case diet of None \<Rightarrow> [] | Some d \<Rightarrow> if d \<noteq> [] then [(''diet'', JStr d)] else [])
     @ (case max_ready_time of
          None \<Rightarrow> []
        | Some t \<Rightarrow> if t \<noteq> 0 then [(''maxReadyTime'', JNum (of_int t))] else [])"

text \<open>\<open>SpoonacularService._parse_recipe_summary\<close>.\<close>

fun parse_recipe_summary :: "json \<Rightarrow> exn + json" where
  "parse_recipe_summary (JObj data) =
     Inr (JObj
       [(''id'', dict_get data ''id'' JNull),
        (''title'', dict_get data ''title'' (JStr [])),
        (''image'', dict_get data ''image'' (JStr [])),
        (''ready_in_minutes'', dict_get data ''readyInMinutes'' JNull),
        (''servings'', dict_get data ''servings'' JNull),
        (''source_url'', dict_get data ''sourceUrl'' (JStr [])),
        (''diets'', dict_get data ''diets'' (JArr [])),
        (''dish_types'', dict_get data ''dishTypes'' (JArr [])),
        (''vegetarian'', dict_get data ''vegetarian'' (JBool False)),
        (''vegan'', dict_get data ''vegan'' (JBool False)),
        (''gluten_free'', dict_get data ''glutenFree'' (JBool False)),
        (''dairy_free'', dict_get data ''dairyFree'' (JBool False)),
        (''health_score'', dict_get data ''healthScore'' JNull)])"
| "parse_recipe_summary _ = Inl AttributeError"

text \<open>The comprehension \<open>[self._parse_recipe_summary(r) for r in ...]\<close>.\<close>

fun parse_recipe_summaries :: "json list \<Rightarrow> exn + json list" where
  "parse_recipe_summaries [] = Inr []"
| "parse_recipe_summaries (r # rs) =
     (case parse_recipe_summary r of
        Inl ex \<Rightarrow> Inl ex
      | Inr x \<Rightarrow>
          (case parse_recipe_summaries rs of Inl ex \<Rightarrow> Inl ex | Inr xs \<Rightarrow> Inr (x # xs)))"

text \<open>The dictionary \<open>result\<close> that \<open>search_recipes\<close> builds from the payload.\<close>

definition search_result :: "json \<Rightarrow> exn + json" where
  "search_result data =
     (case py_get data ''results'' (JArr []) of
        Inl ex \<Rightarrow> Inl ex
      | Inr results \<Rightarrow>
          (case py_iter results of
             Inl ex \<Rightarrow> Inl ex
           | Inr rs \<Rightarrow>
               (case parse_recipe_summaries rs of
                  Inl ex \<Rightarrow> Inl ex
                | Inr parsed \<Rightarrow>
                    (case py_get data ''totalResults'' (JNum 0) of
                       Inl ex \<Rightarrow> Inl ex
                     | Inr total_results \<Rightarrow>
                         Inr (JObj [(''results'', JArr parsed), (''totalResults'', total_results)])))))"

text \<open>
  \<open>response.raise_for_status()\<close> raises an \<open>httpx.HTTPStatusError\<close>, which is an
  \<open>httpx.HTTPError\<close>, unless the status is a success (2xx).
\<close>

definition is_success :: "nat \<Rightarrow> bool" where
  "is_success status_code = (200 \<le> status_code \<and> status_code < 300)"

text \<open>The last \<open>try\<close> block of \<open>search_recipes\<close>: the result is cached for one hour.\<close>

definition cache_store :: "env \<Rightarrow> world \<Rightarrow> string \<Rightarrow> nat \<Rightarrow> json \<Rightarrow> world" where
  "cache_store e w key ttl v =
     (case redis_setex e w key ttl (json_dumps v) of Inl ex \<Rightarrow> w | Inr w' \<Rightarrow> w')"

text \<open>
  \<open>SpoonacularService.search_recipes\<close>. The cache read is the \<open>try\<close> block of the
  barcode lookup. The second \<open>try\<close> holds the request, \<open>raise_for_status\<close> and
  \<open>response.json()\<close>, and catches \<open>httpx.HTTPError\<close>: the decoder's exception is
  not one.
\<close>

definition search_url :: string where
  "search_url = ''https://api.spoonacular.com/recipes/complexSearch''"

definition search_recipes ::
  "env \<Rightarrow> world \<Rightarrow> string option \<Rightarrow> string option \<Rightarrow> string list option \<Rightarrow> string option
     \<Rightarrow> int option \<Rightarrow> int \<Rightarrow> int \<Rightarrow> (exn + json) \<times> world" where
  "search_recipes e w api_key query ingredients diet max_ready_time number offset =
     (case cache_read e w
             (search_cache_key query ingredients diet max_ready_time number offset) of
        Some data \<Rightarrow> (Inr data, w)
      | None \<Rightarrow>
          (let params = search_params api_key query ingredients diet max_ready_time number offset;
               w' = w\<lparr>requests := requests w @ [search_url]\<rparr>;
               no_results = JObj [(''results'', JArr []), (''totalResults'', JNum 0)]
           in case http_get_params e search_url params of
                Raises_HTTPError \<Rightarrow> (Inr no_results, w')
              | Response status_code body \<Rightarrow>
                  if \<not> is_success status_code then (Inr no_results, w')
                  else
                    (case json_loads body of
                       Inl ex \<Rightarrow> (Inl ex, w')
                     | Inr data \<Rightarrow>
                         (case search_result data of
                            Inl ex \<Rightarrow> (Inl ex, w')
                          | Inr result \<Rightarrow>
                              (Inr result,
                               cache_store e w'
                                 (search_cache_key query ingredients diet max_ready_time
                                    number offset)
                                 3600 result)))))"

section \<open>Grocery schemas (schemas/grocery.py)\<close>

text \<open>
  A \<open>datetime\<close> is an instant on the time line; a \<open>float\<close> that is only stored,
  copied and compared with the bounds of its field is a real number.
\<close>

type_synonym datetime = int

datatype FoodCategory =
  DAIRY | MEAT | SEAFOOD | PRODUCE | BAKERY | FROZEN | PANTRY | BEVERAGES | CONDIMENTS | SNACKS | OTHER

fun FoodCategory_value :: "FoodCategory \<Rightarrow> string" where
  "FoodCategory_value DAIRY = ''Dairy''"
| "FoodCategory_value MEAT = ''Meat''"
| "FoodCategory_value SEAFOOD = ''Seafood''"
| "FoodCategory_value PRODUCE = ''Produce''"
| "FoodCategory_value BAKERY = ''Bakery''"
| "FoodCategory_value FROZEN = ''Frozen''"
| "FoodCategory_value PANTRY = ''Pantry''"
| "FoodCategory_value BEVERAGES = ''Beverages''"
| "FoodCategory_value CONDIMENTS = ''Condiments''"
| "FoodCategory_value SNACKS = ''Snacks''"
| "FoodCategory_value OTHER = ''Other''"

text \<open>The member of the enumeration with a given value, as the schema validation finds it.\<close>

definition FoodCategory_of :: "string \<Rightarrow> FoodCategory option" where
  "FoodCategory_of s =
     find (\<lambda>c. FoodCategory_value c = s)
       [DAIRY, MEAT, SEAFOOD, PRODUCE, BAKERY, FROZEN, PANTRY, BEVERAGES, CONDIMENTS, SNACKS, OTHER]"

text \<open>
  \<open>StorageLocation.PANTRY\<close> is written \<open>STORAGE_PANTRY\<close>, the name \<open>PANTRY\<close> being
  the food category's.
\<close>

datatype StorageLocation = REFRIGERATOR | FREEZER | STORAGE_PANTRY | COUNTER

fun StorageLocation_value :: "StorageLocation \<Rightarrow> string" where
  "StorageLocation_value REFRIGERATOR = ''Refrigerator''"
| "StorageLocation_value FREEZER = ''Freezer''"
| "StorageLocation_value STORAGE_PANTRY = ''Pantry''"
| "StorageLocation_value COUNTER = ''Counter''"

definition StorageLocation_of :: "string \<Rightarrow> StorageLocation option" where
  "StorageLocation_of s =
     find (\<lambda>c. StorageLocation_value c = s) [REFRIGERATOR, FREEZER, STORAGE_PANTRY, COUNTER]"

text \<open>\<open>GroceryItemCreate\<close>: the fields of \<open>GroceryItemBase\<close> and the optional id.\<close>

record GroceryItemCreate =
  c_name :: string
  c_category :: FoodCategory
  c_storage_location :: StorageLocation
  c_quantity :: real
  c_unit :: string
  c_purchase_date :: datetime
  c_expiration_date :: "datetime option"
  c_predicted_expiration_date :: "datetime option"
  c_confidence_score :: "real option"
  c_barcode :: "string option"
  c_notes :: "string option"
  c_id :: "string option"

text \<open>
  One item of a request body before the schema has validated it: every key may be
  absent (\<open>None\<close>), the two enumerations arrive as strings.
\<close>

record item_body =
  b_name :: "string option"
  b_category :: "string option"
  b_storage_location :: "string option"
  b_quantity :: "real option"
  b_unit :: "string option"
  b_purchase_date :: "datetime option"
  b_expiration_date :: "datetime option"
  b_predicted_expiration_date :: "datetime option"
  b_confidence_score :: "real option"
  b_barcode :: "string option"
  b_notes :: "string option"
  b_id :: "string option"

text \<open>
  The validation that \<open>GroceryItemCreate\<close> declares, field by field: required fields,
  defaults, \<open>min_length\<close>, \<open>max_length\<close>, \<open>gt\<close>, \<open>ge\<close>, \<open>le\<close> and
  membership in the enumerations.
\<close>

definition validate_item :: "item_body \<Rightarrow> exn + GroceryItemCreate" where
  "validate_item b =
     (case (b_name b, b_category b, b_storage_location b, b_purchase_date b) of
        (Some name, Some category, Some storage_location, Some purchase_date) \<Rightarrow>
          (case (FoodCategory_of category, StorageLocation_of storage_location) of
             (Some cat, Some loc) \<Rightarrow>
               (let quantity = (case b_quantity b of None \<Rightarrow> 1 | Some q \<Rightarrow> q);
                    unit = (case b_unit b of None \<Rightarrow> ''piece'' | Some u \<Rightarrow> u)
                in if 1 \<le> length name \<and> length name \<le> 255
                      \<and> 0 < quantity
                      \<and> length unit \<le> 20
                      \<and> (case b_confidence_score b of None \<Rightarrow> True | Some s \<Rightarrow> 0 \<le> s \<and> s \<le> 1)
                      \<and> (case b_barcode b of None \<Rightarrow> True | Some bc \<Rightarrow> length bc \<le> 50)
                   then Inr \<lparr>c_name = name, c_category = cat, c_storage_location = loc,
                             c_quantity = quantity, c_unit = unit,
                             c_purchase_date = purchase_date,
                             c_expiration_date = b_expiration_date b,
                             c_predicted_expiration_date = b_predicted_expiration_date b,
                             c_confidence_score = b_confidence_score b,
                             c_barcode = b_barcode b, c_notes = b_notes b, c_id = b_id b\<rparr>
                   else Inl ValidationError)
           | _ \<Rightarrow> Inl ValidationError)
      | _ \<Rightarrow> Inl ValidationError)"

text \<open>\<open>GrocerySyncRequest\<close>, as a body and validated.\<close>

record sync_body =
  sb_items :: "item_body list"
  sb_deleted_ids :: "string list"
  sb_last_sync_at :: "datetime option"

record GrocerySyncRequest =
  sq_items :: "GroceryItemCreate list"
  sq_deleted_ids :: "string list"
  sq_last_sync_at :: "datetime option"

fun validate_items :: "item_body list \<Rightarrow> exn + GroceryItemCreate list" where
  "validate_items [] = Inr []"
| "validate_items (b # bs) =
     (case validate_item b of
        Inl ex \<Rightarrow> Inl ex
      | Inr c \<Rightarrow> (case validate_items bs of Inl ex \<Rightarrow> Inl ex | Inr cs \<Rightarrow> Inr (c # cs)))"

definition validate_sync_request :: "sync_body \<Rightarrow> exn + GrocerySyncRequest" where
  "validate_sync_request body =
     (case validate_items (sb_items body) of
        Inl ex \<Rightarrow> Inl ex
      | Inr cs \<Rightarrow> Inr \<lparr>sq_items = cs, sq_deleted_ids = sb_deleted_ids body,
                       sq_last_sync_at = sb_last_sync_at body\<rparr>)"

text \<open>
  \<open>GroceryItemUpdate\<close>, validated. Each field is unset (\<open>None\<close>, left out by
  \<open>model_dump(exclude_unset=True)\<close>), or set to \<open>null\<close> (\<open>Some None\<close>), or set to
  a value.
\<close>

record GroceryItemUpdate =
  u_name :: "string option option"
  u_category :: "FoodCategory option option"
  u_storage_location :: "StorageLocation option option"
  u_quantity :: "real option option"
  u_unit :: "string option option"
  u_purchase_date :: "datetime option option"
  u_expiration_date :: "datetime option option"
  u_predicted_expiration_date :: "datetime option option"
  u_confidence_score :: "real option option"
  u_barcode :: "string option option"
  u_notes :: "string option option"
  u_is_consumed :: "bool option option"
  u_consumed_date :: "datetime option option"

section \<open>The grocery table (db/models/grocery.py)\<close>

text \<open>
  A row of \<open>grocery_items\<close>. The columns declared \<open>Mapped[Optional[...]]\<close> are
  nullable, the others are not. \<open>id\<close> is the primary key, a \<open>String(36)\<close>.
\<close>

record GroceryItem =
  g_id :: string
  g_user_id :: string
  g_name :: string
  g_category :: string
  g_storage_location :: string
  g_quantity :: real
  g_unit :: string
  g_purchase_date :: datetime
  g_expiration_date :: "datetime option"
  g_predicted_expiration_date :: "datetime option"
  g_confidence_score :: "real option"
  g_barcode :: "string option"
  g_external_product_id :: "string option"
  g_notes :: "string option"
  g_image_url :: "string option"
  g_is_consumed :: bool
  g_consumed_date :: "datetime option"
  g_created_at :: datetime
  g_updated_at :: datetime

type_synonym table = "GroceryItem list"

text \<open>
  What surrounds one request: the application's clock (\<open>datetime.now(timezone.utc)\<close>),
  the database's clock (\<open>func.now()\<close>), and the identifiers that the successive calls of
  \<open>uuid.uuid4()\<close> in the request return.
\<close>

record genv =
  utcnow :: datetime
  db_now :: datetime
  uuid4 :: "nat \<Rightarrow> string"

text \<open>
  \<open>select(GroceryItem).where(id == item_id, user_id == uid)\<close> with
  \<open>scalar_one_or_none()\<close>; the primary key admits one such row at most.
\<close>

definition select_item :: "table \<Rightarrow> string \<Rightarrow> string \<Rightarrow> GroceryItem option" where
  "select_item t item_id uid = find (\<lambda>r. g_id r = item_id \<and> g_user_id r = uid) t"

text \<open>\<open>select(GroceryItem).where(user_id == uid)\<close>.\<close>

definition select_user_items :: "table \<Rightarrow> string \<Rightarrow> GroceryItem list" where
  "select_user_items t uid = filter (\<lambda>r. g_user_id r = uid) t"

text \<open>
  The \<open>INSERT\<close> of a row: the database refuses an id longer than the column and an id
  that a row of the table already has, whoever owns that row.
\<close>

definition insert_row :: "table \<Rightarrow> GroceryItem \<Rightarrow> exn + table" where
  "insert_row t r =
     (if 36 < length (g_id r) then Inl DataError
      else if g_id r \<in> set (map g_id t) then Inl IntegrityError
      else Inr (t @ [r]))"

text \<open>The \<open>UPDATE\<close> of a row, addressed by its primary key.\<close>

fun store_row :: "table \<Rightarrow> GroceryItem \<Rightarrow> table" where
  "store_row [] r = []"
| "store_row (x # xs) r = (if g_id x = g_id r then r # xs else x # store_row xs r)"

text \<open>
  The flush of a loaded row whose attributes were assigned: the unit of work emits an
  \<open>UPDATE\<close> when some attribute differs from the loaded value, and the \<open>UPDATE\<close> sets
  \<open>updated_at\<close> (\<open>onupdate=func.now()\<close>); with no difference nothing is written.
\<close>

definition flush_update :: "genv \<Rightarrow> GroceryItem \<Rightarrow> GroceryItem \<Rightarrow> GroceryItem" where
  "flush_update e loaded assigned =
     (if assigned = loaded then loaded else assigned\<lparr>g_updated_at := db_now e\<rparr>)"

section \<open>Grocery endpoints (endpoints/groceries.py)\<close>

text \<open>
  \<open>GroceryItemResponse\<close>, and \<open>grocery_to_response\<close>, which copies the row's columns
  into it. The response schema validates what it is given; the rows it is given were
  written through the validated request schemas, and the conversion is the copy.
\<close>

record GroceryItemResponse =
  rs_id :: string
  rs_user_id :: string
  rs_name :: string
  rs_category :: string
  rs_storage_location :: string
  rs_quantity :: real
  rs_unit :: string
  rs_purchase_date :: datetime
  rs_expiration_date :: "datetime option"
  rs_predicted_expiration_date :: "datetime option"
  rs_confidence_score :: "real option"
  rs_barcode :: "string option"
  rs_notes :: "string option"
  rs_is_consumed :: bool
  rs_consumed_date :: "datetime option"
  rs_created_at :: datetime
  rs_updated_at :: datetime

definition grocery_to_response :: "GroceryItem \<Rightarrow> GroceryItemResponse" where
  "grocery_to_response item =
     \<lparr>rs_id = g_id item,
      rs_user_id = g_user_id item,
      rs_name = g_name item,
      rs_category = g_category item,
      rs_storage_location = g_storage_location item,
      rs_quantity = g_quantity item,
      rs_unit = g_unit item,
      rs_purchase_date = g_purchase_date item,
      rs_expiration_date = g_expiration_date item,
      rs_predicted_expiration_date = g_predicted_expiration_date item,
      rs_confidence_score = g_confidence_score item,
      rs_barcode = g_barcode item,
      rs_notes = g_notes item,
      rs_is_consumed = g_is_consumed item,
      rs_consumed_date = g_consumed_date item,
      rs_created_at = g_created_at item,
      rs_updated_at = g_updated_at item\<rparr>"

text \<open>
  Modelled from the spec: \<open>get_db\<close> and the session factory (\<open>app.db\<close>) are
  not among the sources. By the specification a request runs as one transaction on the
  record store: its lookups see the rows that the request has written so far (a later
  item of a sync batch finds the row that an earlier item added), \<open>commit\<close> makes
  the transaction's table the committed one, and a request that fails persists nothing.
  A handler body is a function of the committed table that raises or returns its answer
  with the table it has committed.
\<close>

definition get_db :: "table \<Rightarrow> (table \<Rightarrow> exn + 'a \<times> table) \<Rightarrow> (exn + 'a) \<times> table" where
  "get_db db handler =
     (case handler db of Inl ex \<Rightarrow> (Inl ex, db) | Inr (answer, t') \<Rightarrow> (Inr answer, t'))"

subsection \<open>PATCH /groceries/\{item\_id\}\<close>

text \<open>
  \<open>setattr(item, field, value)\<close> for a field of the dumped update. A column that is
  not nullable takes the value; \<open>None\<close> assigned to it is refused by the database when
  the commit flushes the row. A nullable column takes the value or \<open>None\<close>.
\<close>

definition set_required :: "'a option option \<Rightarrow> 'a \<Rightarrow> exn + 'a" where
  "set_required u old =
     (case u of None \<Rightarrow> Inr old | Some None \<Rightarrow> Inl IntegrityError | Some (Some v) \<Rightarrow> Inr v)"

definition set_nullable :: "'a option option \<Rightarrow> 'a option \<Rightarrow> 'a option" where
  "set_nullable u old = (case u of None \<Rightarrow> old | Some v \<Rightarrow> v)"

text \<open>
  The loop over \<open>update_data.items()\<close>, in the order of the schema's fields;
  \<open>category\<close> and \<open>storage_location\<close> are assigned the enumeration's \<open>.value\<close>.
\<close>

definition apply_update :: "GroceryItemUpdate \<Rightarrow> GroceryItem \<Rightarrow> exn + GroceryItem" where
  "apply_update item_data item =
     bind (set_required (u_name item_data) (g_name item)) (\<lambda>name.
     bind (set_required (map_option (map_option FoodCategory_value) (u_category item_data))
             (g_category item)) (\<lambda>category.
     bind (set_required (map_option (map_option StorageLocation_value) (u_storage_location item_data))
             (g_storage_location item)) (\<lambda>storage_location.
     bind (set_required (u_quantity item_data) (g_quantity item)) (\<lambda>quantity.
     bind (set_required (u_unit item_data) (g_unit item)) (\<lambda>unit.
     bind (set_required (u_purchase_date item_data) (g_purchase_date item)) (\<lambda>purchase_date.
     bind (set_required (u_is_consumed item_data) (g_is_consumed item)) (\<lambda>is_consumed.
       Inr (item\<lparr>g_name := name,
                 g_category := category,
                 g_storage_location := storage_location,
                 g_quantity := quantity,
                 g_unit := unit,
                 g_purchase_date := purchase_date,
                 g_expiration_date :=
                   set_nullable (u_expiration_date item_data) (g_expiration_date item),
                 g_predicted_expiration_date :=
                   set_nullable (u_predicted_expiration_date item_data)
                     (g_predicted_expiration_date item),
                 g_confidence_score :=
                   set_nullable (u_confidence_score item_data) (g_confidence_score item),
                 g_barcode := set_nullable (u_barcode item_data) (g_barcode item),
                 g_notes := set_nullable (u_notes item_data) (g_notes item),
                 g_is_consumed := is_consumed,
                 g_consumed_date :=
                   set_nullable (u_consumed_date item_data) (g_consumed_date item)\<rparr>))))))))"

text \<open>
  The handler: the lookup, the 404, the assignments, and the commit that flushes the
  assigned row.
\<close>

definition update_grocery ::
  "genv \<Rightarrow> table \<Rightarrow> string \<Rightarrow> string \<Rightarrow> GroceryItemUpdate
     \<Rightarrow> (exn + GroceryItemResponse) \<times> table" where
  "update_grocery e db current_user item_id item_data =
     get_db db (\<lambda>t.
       case select_item t item_id current_user of
         None \<Rightarrow> Inl (HTTPException 404)
       | Some item \<Rightarrow>
           (case apply_update item_data item of
              Inl ex \<Rightarrow> Inl ex
            | Inr assigned \<Rightarrow>
                (let stored = flush_update e item assigned
                 in Inr (grocery_to_response stored, store_row t stored))))"

subsection \<open>POST /groceries/sync\<close>

record GrocerySyncResponse =
  sr_items :: "GroceryItemResponse list"
  sr_deleted_ids :: "string list"
  sr_sync_timestamp :: datetime

text \<open>The bulk \<open>DELETE\<close>, run when \<open>deleted_ids\<close> is not empty.\<close>

definition delete_step :: "table \<Rightarrow> string \<Rightarrow> string list \<Rightarrow> table" where
  "delete_step t current_user deleted_ids =
     (if deleted_ids \<noteq> []
      then filter (\<lambda>r. \<not> (g_id r \<in> set deleted_ids \<and> g_user_id r = current_user)) t
      else t)"

text \<open>The eleven assignments of the update branch.\<close>

definition overwrite :: "GroceryItemCreate \<Rightarrow> GroceryItem \<Rightarrow> GroceryItem" where
  "overwrite item_data existing_item =
     existing_item\<lparr>g_name := c_name item_data,
                    g_category := FoodCategory_value (c_category item_data),
                    g_storage_location := StorageLocation_value (c_storage_location item_data),
                    g_quantity := c_quantity item_data,
                    g_unit := c_unit item_data,
                    g_purchase_date := c_purchase_date item_data,
                    g_expiration_date := c_expiration_date item_data,
                    g_predicted_expiration_date := c_predicted_expiration_date item_data,
                    g_confidence_score := c_confidence_score item_data,
                    g_barcode := c_barcode item_data,
                    g_notes := c_notes item_data\<rparr>"

text \<open>
  The \<open>GroceryItem(...)\<close> of the insert branch as the \<open>INSERT\<close> stores it: the columns
  that are not passed take their defaults, the two timestamps the database's clock.
\<close>

definition new_item :: "genv \<Rightarrow> string \<Rightarrow> string \<Rightarrow> GroceryItemCreate \<Rightarrow> GroceryItem" where
  "new_item e item_id current_user item_data =
     \<lparr>g_id = item_id,
      g_user_id = current_user,
      g_name = c_name item_data,
      g_category = FoodCategory_value (c_category item_data),
      g_storage_location = StorageLocation_value (c_storage_location item_data),
      g_quantity = c_quantity item_data,
      g_unit = c_unit item_data,
      g_purchase_date = c_purchase_date item_data,
      g_expiration_date = c_expiration_date item_data,
      g_predicted_expiration_date = c_predicted_expiration_date item_data,
      g_confidence_score = c_confidence_score item_data,
      g_barcode = c_barcode item_data,
      g_external_product_id = None,
      g_notes = c_notes item_data,
      g_image_url = None,
      g_is_consumed = False,
      g_consumed_date = None,
      g_created_at = db_now e,
      g_updated_at = db_now e\<rparr>"

text \<open>
  \<open>item_data.id or str(uuid.uuid4())\<close>: an absent or empty id takes the next generated
  identifier. The number counts the identifiers generated so far in the request.
\<close>

definition choose_id :: "genv \<Rightarrow> nat \<Rightarrow> GroceryItemCreate \<Rightarrow> string \<times> nat" where
  "choose_id e n item_data =
     (case c_id item_data of
        None \<Rightarrow> (uuid4 e n, Suc n)
      | Some i \<Rightarrow> if i \<noteq> [] then (i, n) else (uuid4 e n, Suc n))"

text \<open>
  One turn of the loop over \<open>sync_request.items\<close>, on the table as the open transaction
  sees it, with the number of identifiers generated so far.
\<close>

definition sync_item ::
  "genv \<Rightarrow> string \<Rightarrow> table \<times> nat \<Rightarrow> GroceryItemCreate \<Rightarrow> exn + table \<times> nat" where
  "sync_item e current_user s item_data =
     (let (item_id, n') = choose_id e (snd s) item_data
      in case select_item (fst s) item_id current_user of
           Some existing_item \<Rightarrow>
             Inr (store_row (fst s)
                    (flush_update e existing_item (overwrite item_data existing_item)), n')
         | None \<Rightarrow>
             (case insert_row (fst s) (new_item e item_id current_user item_data) of
                Inl ex \<Rightarrow> Inl ex
              | Inr t' \<Rightarrow> Inr (t', n')))"

fun sync_items ::
  "genv \<Rightarrow> string \<Rightarrow> table \<times> nat \<Rightarrow> GroceryItemCreate list \<Rightarrow> exn + table \<times> nat" where
  "sync_items e current_user s [] = Inr s"
| "sync_items e current_user s (item_data # rest) =
     (case sync_item e current_user s item_data of
        Inl ex \<Rightarrow> Inl ex
      | Inr s' \<Rightarrow> sync_items e current_user s' rest)"

text \<open>
  The handler. The body is validated before the handler runs. The delete and the loop act
  on the transaction's table, the commit follows the loop, and the response is read from
  the committed table.
\<close>

definition sync_groceries ::
  "genv \<Rightarrow> table \<Rightarrow> string \<Rightarrow> sync_body \<Rightarrow> (exn + GrocerySyncResponse) \<times> table" where
  "sync_groceries e db current_user body =
     (case validate_sync_request body of
        Inl ex \<Rightarrow> (Inl ex, db)
      | Inr sync_request \<Rightarrow>
          get_db db (\<lambda>t0.
            let sync_timestamp = utcnow e;
                server_deleted_ids = [];
                t = delete_step t0 current_user (sq_deleted_ids sync_request)
            in case sync_items e current_user (t, 0) (sq_items sync_request) of
                 Inl ex \<Rightarrow> Inl ex
               | Inr (t', n) \<Rightarrow>
                   Inr (\<lparr>sr_items = map grocery_to_response (select_user_items t' current_user),
                         sr_deleted_ids = server_deleted_ids,
                         sr_sync_timestamp = sync_timestamp\<rparr>,
                        t')))"

section \<open>Predicates on tables and rows\<close>

text \<open>The primary key: no two rows of the table have the same id.\<close>

definition pk :: "table \<Rightarrow> bool" where
  "pk t = distinct (map g_id t)"

text \<open>The rows of the other users.\<close>

definition others :: "table \<Rightarrow> string \<Rightarrow> GroceryItem list" where
  "others t uid = filter (\<lambda>r. g_user_id r \<noteq> uid) t"

text \<open>A row carries the submitted values of an item: the eleven fields of the schema.\<close>

definition carries :: "GroceryItemCreate \<Rightarrow> GroceryItem \<Rightarrow> bool" where
  "carries c r =
     (g_name r = c_name c
      \<and> g_category r = FoodCategory_value (c_category c)
      \<and> g_storage_location r = StorageLocation_value (c_storage_location c)
      \<and> g_quantity r = c_quantity c
      \<and> g_unit r = c_unit c
      \<and> g_purchase_date r = c_purchase_date c
      \<and> g_expiration_date r = c_expiration_date c
      \<and> g_predicted_expiration_date r = c_predicted_expiration_date c
      \<and> g_confidence_score r = c_confidence_score c
      \<and> g_barcode r = c_barcode c
      \<and> g_notes r = c_notes c)"

text \<open>
  The columns that no submitted item has a value for: identity, owner, creation
  timestamp, consumption state, external product id and image.
\<close>

definition kept ::
  "GroceryItem \<Rightarrow>
     string \<times> string \<times> datetime \<times> bool \<times> datetime option \<times> string option \<times> string option" where
  "kept r =
     (g_id r, g_user_id r, g_created_at r, g_is_consumed r, g_consumed_date r,
      g_external_product_id r, g_image_url r)"

text \<open>
  Every field that a PATCH body leaves unset has in the second row the value it has in
  the first, and so have the columns that the body has no field for, \<open>updated_at\<close>
  apart (which the database maintains).
\<close>

definition omitted_fields_retained ::
  "GroceryItemUpdate \<Rightarrow> GroceryItem \<Rightarrow> GroceryItem \<Rightarrow> bool" where
  "omitted_fields_retained upd item item' =
     ((u_name upd = None \<longrightarrow> g_name item' = g_name item)
      \<and> (u_category upd = None \<longrightarrow> g_category item' = g_category item)
      \<and> (u_storage_location upd = None \<longrightarrow> g_storage_location item' = g_storage_location item)
      \<and> (u_quantity upd = None \<longrightarrow> g_quantity item' = g_quantity item)
      \<and> (u_unit upd = None \<longrightarrow> g_unit item' = g_unit item)
      \<and> (u_purchase_date upd = None \<longrightarrow> g_purchase_date item' = g_purchase_date item)
      \<and> (u_expiration_date upd = None \<longrightarrow> g_expiration_date item' = g_expiration_date item)
      \<and> (u_predicted_expiration_date upd = None \<longrightarrow>
            g_predicted_expiration_date item' = g_predicted_expiration_date item)
      \<and> (u_confidence_score upd = None \<longrightarrow> g_confidence_score item' = g_confidence_score item)
      \<and> (u_barcode upd = None \<longrightarrow> g_barcode item' = g_barcode item)
      \<and> (u_notes upd = None \<longrightarrow> g_notes item' = g_notes item)
      \<and> (u_is_consumed upd = None \<longrightarrow> g_is_consumed item' = g_is_consumed item)
      \<and> (u_consumed_date upd = None \<longrightarrow> g_consumed_date item' = g_consumed_date item)
      \<and> g_id item' = g_id item
      \<and> g_user_id item' = g_user_id item
      \<and> g_external_product_id item' = g_external_product_id item
      \<and> g_image_url item' = g_image_url item
      \<and> g_created_at item' = g_created_at item)"

text \<open>When the cache read of a key fails: the client raises, or the text does not decode.\<close>

definition cache_read_fails :: "env \<Rightarrow> world \<Rightarrow> string \<Rightarrow> bool" where
  "cache_read_fails e w key =
     (case redis_get e w key of
        Inl ex \<Rightarrow> True
      | Inr None \<Rightarrow> False
      | Inr (Some cached) \<Rightarrow> (case json_loads cached of Inl ex \<Rightarrow> True | Inr data \<Rightarrow> False))"

text \<open>
  The identifiers that the turns of the loop give to the items of a batch (the submitted
  id, or the next generated one), and the number of identifiers generated when the batch
  is through, the count starting at \<open>n\<close>.
\<close>

fun chosen_ids :: "genv \<Rightarrow> nat \<Rightarrow> GroceryItemCreate list \<Rightarrow> string list" where
  "chosen_ids e n [] = []"
| "chosen_ids e n (c # cs) = fst (choose_id e n c) # chosen_ids e (snd (choose_id e n c)) cs"

fun counter_after :: "genv \<Rightarrow> nat \<Rightarrow> GroceryItemCreate list \<Rightarrow> nat" where
  "counter_after e n [] = n"
| "counter_after e n (c # cs) = counter_after e (snd (choose_id e n c)) cs"

section \<open>Concrete inputs\<close>

text \<open>The inputs at which the theorems below are instantiated.\<close>

definition empty_world :: world where
  "empty_world = \<lparr>cache = Map.empty, requests = []\<rparr>"

definition milk_payload :: json where
  "milk_payload =
     JObj [(''status'', JNum 1),
           (''product'', JObj [(''product_name'', JStr '' Milk ''),
                               (''categories_tags'', JArr [JStr ''en:Dairies'', JStr ''en:milks''])])]"

text \<open>A provider that answers with a page that is not JSON, one that does not know the
  product, and one that knows it while Redis is down.\<close>

definition env_garbage :: env where
  "env_garbage = \<lparr>now = 1000, redis_get_up = True, redis_setex_up = True,
                   http_get = (\<lambda>url. Response 200 (Garbage ''<html>Bad Gateway</html>'')),
                   http_get_params = (\<lambda>url params. Response 200 (Garbage ''<html>''))\<rparr>"

definition env_unknown :: env where
  "env_unknown = \<lparr>now = 1000, redis_get_up = True, redis_setex_up = True,
                   http_get = (\<lambda>url. Response 404 (Encoded (JObj [(''status'', JNum 0)]))),
                   http_get_params = (\<lambda>url params. Raises_HTTPError)\<rparr>"

definition soup_payload :: json where
  "soup_payload =
     JObj [(''results'', JArr [JObj [(''id'', JNum 7), (''title'', JStr ''Soup'')]]),
           (''totalResults'', JNum 1)]"

definition env_redis_down :: env where
  "env_redis_down = \<lparr>now = 1000, redis_get_up = False, redis_setex_up = False,
                      http_get = (\<lambda>url. Response 200 (Encoded milk_payload)),
                      http_get_params = (\<lambda>url params. Response 200 (Encoded soup_payload))\<rparr>"

text \<open>Eight times the superscript two, \<open>U+00B2\<close>.\<close>

definition superscript_twos :: string where
  "superscript_twos =
     [char_of (178 :: nat), char_of (178 :: nat), char_of (178 :: nat), char_of (178 :: nat),
      char_of (178 :: nat), char_of (178 :: nat), char_of (178 :: nat), char_of (178 :: nat)]"



text \<open>
  A request environment whose generated identifiers are \<open>uuid-0\<close>, \<open>uuid-00\<close>, ...;
  a valid item body for milk, without an id and with the id \<open>x1\<close>, and an item body
  with a category that is not in the enumeration.
\<close>

definition request_env :: genv where
  "request_env =
     \<lparr>utcnow = 500, db_now = 501, uuid4 = (\<lambda>k. ''uuid-'' @ replicate (Suc k) CHR ''0'')\<rparr>"

definition milk_body :: item_body where
  "milk_body =
     \<lparr>b_name = Some ''Milk'', b_category = Some ''Dairy'',
      b_storage_location = Some ''Refrigerator'', b_quantity = Some 1,
      b_unit = Some ''gallon'', b_purchase_date = Some 100, b_expiration_date = None,
      b_predicted_expiration_date = None, b_confidence_score = None, b_barcode = None,
      b_notes = None, b_id = None\<rparr>"

definition milk :: GroceryItemCreate where
  "milk =
     \<lparr>c_name = ''Milk'', c_category = DAIRY, c_storage_location = REFRIGERATOR,
      c_quantity = 1, c_unit = ''gallon'', c_purchase_date = 100, c_expiration_date = None,
      c_predicted_expiration_date = None, c_confidence_score = None, c_barcode = None,
      c_notes = None, c_id = None\<rparr>"

definition bad_body :: item_body where
  "bad_body = milk_body\<lparr>b_category := Some ''Dairyy''\<rparr>"

text \<open>Alice's stored eggs, consumed, with the id \<open>x1\<close>; Bob's bread with the id \<open>b1\<close>.\<close>

definition eggs_row :: GroceryItem where
  "eggs_row =
     \<lparr>g_id = ''x1'', g_user_id = ''alice'', g_name = ''Eggs'', g_category = ''Dairy'',
      g_storage_location = ''Refrigerator'', g_quantity = 12, g_unit = ''piece'',
      g_purchase_date = 50, g_expiration_date = None, g_predicted_expiration_date = None,
      g_confidence_score = None, g_barcode = None, g_external_product_id = None,
      g_notes = Some ''free range'', g_image_url = None, g_is_consumed = True,
      g_consumed_date = Some 60, g_created_at = 10, g_updated_at = 20\<rparr>"

definition bread_row :: GroceryItem where
  "bread_row =
     \<lparr>g_id = ''b1'', g_user_id = ''bob'', g_name = ''Bread'', g_category = ''Bakery'',
      g_storage_location = ''Counter'', g_quantity = 1, g_unit = ''piece'',
      g_purchase_date = 70, g_expiration_date = None, g_predicted_expiration_date = None,
      g_confidence_score = None, g_barcode = None, g_external_product_id = None,
      g_notes = None, g_image_url = None, g_is_consumed = False,
      g_consumed_date = None, g_created_at = 30, g_updated_at = 30\<rparr>"

text \<open>Sync bodies: one item with the id \<open>x1\<close>, with and without the deletion of
  \<open>x1\<close>; one item without an id; a batch with an invalid item; a batch of valid items
  whose second refers to Bob's id.\<close>

definition body_delete_and_update :: sync_body where
  "body_delete_and_update =
     \<lparr>sb_items = [milk_body\<lparr>b_id := Some ''x1''\<rparr>], sb_deleted_ids = [''x1''],
      sb_last_sync_at = None\<rparr>"

definition body_update :: sync_body where
  "body_update =
     \<lparr>sb_items = [milk_body\<lparr>b_id := Some ''x1''\<rparr>], sb_deleted_ids = [],
      sb_last_sync_at = None\<rparr>"

definition body_new :: sync_body where
  "body_new = \<lparr>sb_items = [milk_body], sb_deleted_ids = [], sb_last_sync_at = None\<rparr>"

definition body_invalid :: sync_body where
  "body_invalid =
     \<lparr>sb_items = [milk_body, bad_body], sb_deleted_ids = [''x1''], sb_last_sync_at = None\<rparr>"

definition body_foreign :: sync_body where
  "body_foreign =
     \<lparr>sb_items = [milk_body, milk_body\<lparr>b_id := Some ''b1''\<rparr>], sb_deleted_ids = [''x1''],
      sb_last_sync_at = None\<rparr>"

text \<open>A PATCH body that sets the name and nothing else.\<close>

definition rename :: GroceryItemUpdate where
  "rename =
     \<lparr>u_name = Some (Some ''Duck eggs''), u_category = None, u_storage_location = None,
      u_quantity = None, u_unit = None, u_purchase_date = None, u_expiration_date = None,
      u_predicted_expiration_date = None, u_confidence_score = None, u_barcode = None,
      u_notes = None, u_is_consumed = None, u_consumed_date = None\<rparr>"

text \<open>The validated milk item with the id \<open>x1\<close>, and the validated requests.\<close>

definition milk_x1 :: GroceryItemCreate where
  "milk_x1 = milk\<lparr>c_id := Some ''x1''\<rparr>"

definition request_delete_and_update :: GrocerySyncRequest where
  "request_delete_and_update =
     \<lparr>sq_items = [milk_x1], sq_deleted_ids = [''x1''], sq_last_sync_at = None\<rparr>"

definition request_update :: GrocerySyncRequest where
  "request_update = \<lparr>sq_items = [milk_x1], sq_deleted_ids = [], sq_last_sync_at = None\<rparr>"

definition request_new :: GrocerySyncRequest where
  "request_new = \<lparr>sq_items = [milk], sq_deleted_ids = [], sq_last_sync_at = None\<rparr>"

definition request_foreign :: GrocerySyncRequest where
  "request_foreign =
     \<lparr>sq_items = [milk, milk\<lparr>c_id := Some ''b1''\<rparr>], sq_deleted_ids = [''x1''],
      sq_last_sync_at = None\<rparr>"

text \<open>The eggs after the PATCH that renames them.\<close>

definition renamed_row :: GroceryItem where
  "renamed_row = eggs_row\<lparr>g_name := ''Duck eggs'', g_updated_at := 501\<rparr>"

text \<open>A batch of two valid items, the first without an id, the second with the id
  \<open>x1\<close>; the rows that the two turns write.\<close>

definition body_two :: sync_body where
  "body_two =
     \<lparr>sb_items = [milk_body, milk_body\<lparr>b_id := Some ''x1''\<rparr>], sb_deleted_ids = [],
      sb_last_sync_at = None\<rparr>"

definition request_two :: GrocerySyncRequest where
  "request_two = \<lparr>sq_items = [milk, milk_x1], sq_deleted_ids = [], sq_last_sync_at = None\<rparr>"

definition generated_row :: GroceryItem where
  "generated_row = new_item request_env ''uuid-0'' ''alice'' milk"

definition submitted_row :: GroceryItem where
  "submitted_row = new_item request_env ''x1'' ''alice'' milk_x1"

definition overwritten_row :: GroceryItem where
  "overwritten_row = (overwrite milk_x1 eggs_row)\<lparr>g_updated_at := 501\<rparr>"

section \<open>Verification: strings and category mapping\<close>

lemma startswith_prefix: "startswith s p \<longleftrightarrow> prefix p s"
  by (induction s p rule: startswith.induct) auto

lemma py_in_sublist: "py_in k s \<longleftrightarrow> sublist k s"
  by (induction s) (auto simp: startswith_prefix sublist_Cons_right)

lemma match_keyword_find:
  "match_keyword m t = map_option snd (find (\<lambda>kc. sublist (fst kc) t) m)"
  by (induction m t rule: match_keyword.induct) (auto simp: py_in_sublist)

lemma map_category_loop_spec:
  "map_category_loop mapping (map JStr tags) = Inr (spec_category tags)"
  by (induction tags)
     (auto simp: spec_category_def first_keyword_def match_keyword_find split: option.splits)

text \<open>
  C6. The category is a function of the tag list alone: on every list of string tags
  \<open>_map_category\<close> returns the category of the first tag, in the given order, whose
  lowercase form contains a keyword of the table (through the first such keyword in table
  order), and \<open>"Other"\<close> when no tag contains one. The tags
  \<open>["en:yogurts", "en:dairy"]\<close> give \<open>"Dairy"\<close> and \<open>["en:unknown-thing"]\<close>
  gives \<open>"Other"\<close>.
\<close>

theorem map_category_first_matching_tag:
  "map_category (map JStr tags) = Inr (spec_category tags)
   \<and> map_category [JStr ''en:yogurts'', JStr ''en:dairy''] = Inr ''Dairy''
   \<and> map_category [JStr ''en:unknown-thing''] = Inr ''Other''"
proof -
  have general: "map_category (map JStr tags) = Inr (spec_category tags)"
    by (simp add: map_category_def map_category_loop_spec)
  have yogurts: "map_category [JStr ''en:yogurts'', JStr ''en:dairy''] = Inr ''Dairy''"
    by code_simp
  have unknown: "map_category [JStr ''en:unknown-thing''] = Inr ''Other''"
    by code_simp
  from general yogurts unknown show ?thesis by blast
qed

section \<open>Verification: the barcode service\<close>

lemma requests_cache_write: "requests (cache_write e w k p) = requests w"
  by (simp add: cache_write_def redis_setex_def)

lemma cache_write_down: "\<not> redis_setex_up e \<Longrightarrow> cache_write e w k p = w"
  by (simp add: cache_write_def redis_setex_def)


lemma requests_query:
  "requests (snd (query_open_food_facts e w b)) = requests w @ [product_url b]"
  by (simp add: query_open_food_facts_def Let_def split: http_result.splits sum.splits)

lemma cache_query: "cache (snd (query_open_food_facts e w b)) = cache w"
  by (simp add: query_open_food_facts_def Let_def split: http_result.splits sum.splits)

lemma lookup_miss:
  "cache_read e w (cache_key b) = None \<Longrightarrow>
   lookup e w b =
     (case query_open_food_facts e w b of
        (Inl ex, w') \<Rightarrow> (Inl ex, w')
      | (Inr product, w') \<Rightarrow> (Inr product, cache_write e w' (cache_key b) product))"
  by (simp add: lookup_def)

lemma fst_lookup_miss:
  "cache_read e w (cache_key b) = None \<Longrightarrow>
   fst (lookup e w b) = fst (query_open_food_facts e w b)"
  by (simp add: lookup_miss split: prod.splits sum.splits)

lemma requests_lookup_miss:
  "cache_read e w (cache_key b) = None \<Longrightarrow>
   requests (snd (lookup e w b)) = requests w @ [product_url b]"
  using requests_query [of e w b]
  by (auto simp add: lookup_miss requests_cache_write split: prod.splits sum.splits)

lemma cache_read_fails_miss:
  "cache_read_fails e w k \<Longrightarrow> cache_read e w k = None"
  by (auto simp: cache_read_fails_def cache_read_def split: sum.splits option.splits)

lemma map_category_loop_no_redis: "map_category_loop m tags \<noteq> Inl RedisError"
  by (induction m tags rule: map_category_loop.induct) (auto split: option.splits)

lemma parse_product_no_redis: "parse_product p b \<noteq> Inl RedisError"
proof (cases p)
  case (JObj product)
  have a: "py_strip v \<noteq> Inl RedisError" for v by (cases v) auto
  have b: "py_iter v \<noteq> Inl RedisError" for v by (cases v) auto
  show ?thesis
    using a b map_category_loop_no_redis
    by (auto simp: JObj map_category_def split: sum.splits)
qed auto

lemma py_get_no_redis: "py_get v k d \<noteq> Inl RedisError"
  by (cases v) auto

lemma query_no_redis: "fst (query_open_food_facts e w b) \<noteq> Inl RedisError"
proof -
  have "json_loads body \<noteq> Inl RedisError" for body by (cases body) auto
  then show ?thesis
    using parse_product_no_redis py_get_no_redis
    by (auto simp: query_open_food_facts_def Let_def split: http_result.splits sum.splits)
qed

lemma lookup_no_redis: "fst (lookup e w b) \<noteq> Inl RedisError"
proof (cases "cache_read e w (cache_key b)")
  case None
  then show ?thesis using query_no_redis [of e w b] by (simp add: fst_lookup_miss)
next
  case (Some data)
  then show ?thesis by (simp add: lookup_def)
qed

text \<open>
  C3. On a cache miss, a response with status 200 whose body is not JSON makes the lookup
  raise the decoder's exception: \<open>response.json()\<close> stands outside the \<open>try\<close>, and
  the exception reaches the caller instead of the answer "not found".
\<close>

theorem lookup_malformed_payload_raises:
  assumes "cache_read e w (cache_key barcode) = None"
    and "http_get e (product_url barcode) = Response 200 (Garbage s)"
  shows "fst (lookup e w barcode) = Inl JSONDecodeError"
  using assms by (simp add: lookup_def query_open_food_facts_def)

theorem lookup_malformed_payload_raises_witness:
  "cache_read env_garbage empty_world (cache_key ''12345678'') = None
   \<and> http_get env_garbage (product_url ''12345678'')
       = Response 200 (Garbage ''<html>Bad Gateway</html>'')
   \<and> fst (lookup env_garbage empty_world ''12345678'') = Inl JSONDecodeError"
proof -
  have a: "cache_read env_garbage empty_world (cache_key ''12345678'') = None"
    by (simp add: cache_read_def redis_get_def env_garbage_def empty_world_def)
  have b: "http_get env_garbage (product_url ''12345678'')
           = Response 200 (Garbage ''<html>Bad Gateway</html>'')"
    by (simp add: env_garbage_def)
  from a b lookup_malformed_payload_raises [OF a b] show ?thesis by simp
qed

text \<open>The failures that the service does turn into "not found".\<close>

lemma query_network_failure:
  "http_get e (product_url b) = Raises_HTTPError \<Longrightarrow>
   fst (query_open_food_facts e w b) = Inr JNull"
  by (simp add: query_open_food_facts_def)

lemma query_bad_status:
  "http_get e (product_url b) = Response status_code body \<Longrightarrow> status_code \<noteq> 200 \<Longrightarrow>
   fst (query_open_food_facts e w b) = Inr JNull"
  by (simp add: query_open_food_facts_def)

lemma parse_product_no_name:
  "strip name = [] \<Longrightarrow> dict_get product ''product_name'' (JStr []) = JStr name \<Longrightarrow>
   parse_product (JObj product) b = Inr JNull"
  by simp

section \<open>Verification: the barcode endpoint\<close>





lemma query_env_unknown: "fst (query_open_food_facts env_unknown w b) = Inr JNull"
  by (simp add: query_open_food_facts_def env_unknown_def)

lemma cache_read_empty_world: "cache_read e empty_world k = None"
  by (simp add: cache_read_def redis_get_def empty_world_def)

lemma lookup_barcode_unknown:
  assumes "isdigit (strip b)" and "length (strip b) \<in> {8, 12, 13, 14}"
  shows "fst (lookup_barcode env_unknown empty_world b) = Inl (HTTPException 404)
         \<and> requests (snd (lookup_barcode env_unknown empty_world b)) = [product_url (strip b)]"
proof -
  have miss: "cache_read env_unknown empty_world (cache_key (strip b)) = None"
    by (rule cache_read_empty_world)
  have r: "fst (lookup env_unknown empty_world (strip b)) = Inr JNull"
    using fst_lookup_miss [OF miss] by (simp add: query_env_unknown)
  have l: "requests (snd (lookup env_unknown empty_world (strip b))) = [product_url (strip b)]"
    using requests_lookup_miss [OF miss] by (simp add: empty_world_def)
  have c: "(\<not> isdigit (strip b) \<or> length (strip b) \<notin> {8, 12, 13, 14}) = False"
    using assms by blast
  have "lookup_barcode env_unknown empty_world b
        = (case lookup env_unknown empty_world (strip b) of
             (Inl ex, w') \<Rightarrow> (Inl ex, w')
           | (Inr result, w') \<Rightarrow> (respond result, w'))"
    unfolding lookup_barcode_def Let_def c by simp
  with r l show ?thesis
    by (auto simp: respond_def split: prod.splits sum.splits)
qed


text \<open>
  The pattern is not what the endpoint tests either: \<open>str.isdigit()\<close> holds of the
  superscript digits, so eight characters \<open>U+00B2\<close> do not match the pattern, stripped
  or not, and are looked up.
\<close>

lemma lookup_barcode_superscript_digits:
  "\<not> matches_barcode_pattern (strip superscript_twos)
   \<and> fst (lookup_barcode env_unknown empty_world superscript_twos) = Inl (HTTPException 404)
   \<and> requests (snd (lookup_barcode env_unknown empty_world superscript_twos))
       = [product_url superscript_twos]"
proof -
  have s: "strip superscript_twos = superscript_twos"
    by (simp add: strip_def is_space_def superscript_twos_def)
  have p: "\<not> matches_barcode_pattern superscript_twos"
    by (simp add: matches_barcode_pattern_def is_decimal_char_def superscript_twos_def)
  have v: "isdigit (strip superscript_twos)" "length (strip superscript_twos) \<in> {8, 12, 13, 14}"
    unfolding s by (simp_all add: isdigit_def is_digit_char_def superscript_twos_def)
  from lookup_barcode_unknown [OF v] p show ?thesis
    by (simp add: s)
qed



section \<open>Verification: negative caching\<close>



section \<open>Verification: the recipe service and cache failures\<close>

lemma cache_store_down: "\<not> redis_setex_up e \<Longrightarrow> cache_store e w k ttl v = w"
  by (simp add: cache_store_def redis_setex_def)

lemma parse_recipe_summaries_no_redis: "parse_recipe_summaries rs \<noteq> Inl RedisError"
proof (induction rs)
  case Nil
  then show ?case by simp
next
  case (Cons r rs)
  have "parse_recipe_summary r \<noteq> Inl RedisError" by (cases r) auto
  with Cons show ?case by (auto split: sum.splits)
qed

lemma search_result_no_redis: "search_result data \<noteq> Inl RedisError"
proof -
  have "py_iter v \<noteq> Inl RedisError" for v by (cases v) auto
  then show ?thesis
    using parse_recipe_summaries_no_redis py_get_no_redis
    by (auto simp: search_result_def split: sum.splits)
qed

lemma fst_search_miss:
  assumes "cache_read e w (search_cache_key q i d t n off) = None"
    and "cache_read e' w' (search_cache_key q i d t n off) = None"
    and "http_get_params e' = http_get_params e"
  shows "fst (search_recipes e w k q i d t n off) = fst (search_recipes e' w' k q i d t n off)"
  using assms
  by (simp add: search_recipes_def Let_def split: http_result.splits sum.splits)

lemma search_no_redis: "fst (search_recipes e w k q i d t n off) \<noteq> Inl RedisError"
proof -
  have "json_loads body \<noteq> Inl RedisError" for body by (cases body) auto
  then show ?thesis
    using search_result_no_redis
    by (auto simp: search_recipes_def Let_def split: option.splits http_result.splits sum.splits)
qed

lemma redis_get_setex_flag: "redis_get (e\<lparr>redis_setex_up := b\<rparr>) w k = redis_get e w k"
  by (simp add: redis_get_def split: option.splits prod.splits)

lemma cache_read_setex_flag: "cache_read (e\<lparr>redis_setex_up := b\<rparr>) w k = cache_read e w k"
  by (simp add: cache_read_def redis_get_setex_flag)

lemma cache_read_no_cache: "cache_read e (w\<lparr>cache := Map.empty\<rparr>) k = None"
  by (simp add: cache_read_def redis_get_def)

lemma search_malformed_payload_raises:
  assumes "cache_read e w (search_cache_key q i d t n off) = None"
    and "http_get_params e search_url (search_params k q i d t n off) = Response 200 (Garbage s)"
  shows "fst (search_recipes e w k q i d t n off) = Inl JSONDecodeError"
  using assms by (simp add: search_recipes_def is_success_def)

text \<open>
  C7. No failure of the cache reaches the caller of a lookup through the cache, for the
  barcode lookup and for the recipe search alike. Neither ever raises the Redis client's
  exception. When the read fails (the client raises, or the cached text does not decode)
  the caller gets what a miss gives: the provider query's answer for the barcode lookup,
  and for the recipe search the answer it gives with an empty cache and Redis up. When
  the write fails after a miss the freshly computed result is still returned: the barcode
  lookup is the provider query, result and state, and the recipe search returns the same
  with the write failing as with the write succeeding.
\<close>

theorem cache_failures_absorbed:
  "fst (lookup e w barcode) \<noteq> Inl RedisError
   \<and> (cache_read_fails e w (cache_key barcode) \<longrightarrow>
        fst (lookup e w barcode) = fst (query_open_food_facts e w barcode))
   \<and> (cache_read e w (cache_key barcode) = None \<and> \<not> redis_setex_up e \<longrightarrow>
        lookup e w barcode = query_open_food_facts e w barcode)
   \<and> fst (search_recipes e w api_key query ingredients diet max_ready_time number offset)
       \<noteq> Inl RedisError
   \<and> (cache_read_fails e w
         (search_cache_key query ingredients diet max_ready_time number offset) \<longrightarrow>
        fst (search_recipes e w api_key query ingredients diet max_ready_time number offset)
        = fst (search_recipes (e\<lparr>redis_get_up := True\<rparr>) (w\<lparr>cache := Map.empty\<rparr>)
                 api_key query ingredients diet max_ready_time number offset))
   \<and> (cache_read e w
         (search_cache_key query ingredients diet max_ready_time number offset) = None \<longrightarrow>
        fst (search_recipes (e\<lparr>redis_setex_up := False\<rparr>) w
               api_key query ingredients diet max_ready_time number offset)
        = fst (search_recipes (e\<lparr>redis_setex_up := True\<rparr>) w
                 api_key query ingredients diet max_ready_time number offset))"
proof -
  let ?k = "search_cache_key query ingredients diet max_ready_time number offset"
  have rd: "fst (lookup e w barcode) = fst (query_open_food_facts e w barcode)"
    if "cache_read_fails e w (cache_key barcode)"
    using that by (simp add: cache_read_fails_miss fst_lookup_miss)
  have wr: "lookup e w barcode = query_open_food_facts e w barcode"
    if "cache_read e w (cache_key barcode) = None" and "\<not> redis_setex_up e"
    using that by (simp add: lookup_miss cache_write_down split: prod.splits sum.splits)
  have srd: "fst (search_recipes e w api_key query ingredients diet max_ready_time number offset)
        = fst (search_recipes (e\<lparr>redis_get_up := True\<rparr>) (w\<lparr>cache := Map.empty\<rparr>)
                 api_key query ingredients diet max_ready_time number offset)"
    if "cache_read_fails e w ?k"
  proof -
    from that have "cache_read e w ?k = None" by (rule cache_read_fails_miss)
    then show ?thesis
      by (intro fst_search_miss) (simp_all add: cache_read_no_cache)
  qed
  have swr: "fst (search_recipes (e\<lparr>redis_setex_up := False\<rparr>) w
               api_key query ingredients diet max_ready_time number offset)
        = fst (search_recipes (e\<lparr>redis_setex_up := True\<rparr>) w
                 api_key query ingredients diet max_ready_time number offset)"
    if "cache_read e w ?k = None"
    using that by (intro fst_search_miss) (simp_all add: cache_read_setex_flag)
  from lookup_no_redis rd wr search_no_redis srd swr show ?thesis by blast
qed

theorem cache_failures_absorbed_witness:
  "cache_read_fails env_redis_down empty_world (cache_key ''12345678'')
   \<and> cache_read env_redis_down empty_world (cache_key ''12345678'') = None
   \<and> \<not> redis_setex_up env_redis_down
   \<and> cache_read_fails env_redis_down empty_world
        (search_cache_key (Some ''soup'') None None None 10 0)
   \<and> cache_read env_redis_down empty_world
        (search_cache_key (Some ''soup'') None None None 10 0) = None
   \<and> fst (lookup env_redis_down empty_world ''12345678'') \<noteq> Inl RedisError
   \<and> fst (lookup env_redis_down empty_world ''12345678'')
       = fst (query_open_food_facts env_redis_down empty_world ''12345678'')
   \<and> lookup env_redis_down empty_world ''12345678''
       = query_open_food_facts env_redis_down empty_world ''12345678''
   \<and> fst (search_recipes env_redis_down empty_world None (Some ''soup'') None None None 10 0)
       \<noteq> Inl RedisError
   \<and> fst (search_recipes env_redis_down empty_world None (Some ''soup'') None None None 10 0)
       = fst (search_recipes (env_redis_down\<lparr>redis_get_up := True\<rparr>)
                (empty_world\<lparr>cache := Map.empty\<rparr>) None (Some ''soup'') None None None 10 0)
   \<and> fst (search_recipes (env_redis_down\<lparr>redis_setex_up := False\<rparr>) empty_world
              None (Some ''soup'') None None None 10 0)
       = fst (search_recipes (env_redis_down\<lparr>redis_setex_up := True\<rparr>) empty_world
                None (Some ''soup'') None None None 10 0)"
proof -
  have f: "cache_read_fails env_redis_down empty_world k" for k
    by (simp add: cache_read_fails_def redis_get_def env_redis_down_def)
  have m: "cache_read env_redis_down empty_world k = None" for k
    by (rule cache_read_empty_world)
  have d: "\<not> redis_setex_up env_redis_down"
    by (simp add: env_redis_down_def)
  note t = cache_failures_absorbed [of env_redis_down empty_world "''12345678''" None
      "Some ''soup''" None None None 10 0]
  from t f [of "cache_key ''12345678''"] m [of "cache_key ''12345678''"] d
    f [of "search_cache_key (Some ''soup'') None None None 10 0"]
    m [of "search_cache_key (Some ''soup'') None None None 10 0"]
  show ?thesis by blast
qed

section \<open>Verification: the grocery table\<close>

lemma select_item_SomeD:
  "select_item t i u = Some r \<Longrightarrow> r \<in> set t \<and> g_id r = i \<and> g_user_id r = u"
  by (auto simp: select_item_def find_Some_iff)

lemma select_item_None_iff:
  "select_item t i u = None \<longleftrightarrow> (\<forall>r\<in>set t. \<not> (g_id r = i \<and> g_user_id r = u))"
  by (auto simp: select_item_def find_None_iff)

lemma select_item_Cons:
  "select_item (x # xs) i u = (if g_id x = i \<and> g_user_id x = u then Some x else select_item xs i u)"
  by (simp add: select_item_def)

lemma select_item_append_new:
  "select_item (t @ [r]) i u =
     (case select_item t i u of Some x \<Rightarrow> Some x
      | None \<Rightarrow> if g_id r = i \<and> g_user_id r = u then Some r else None)"
  by (induction t) (auto simp: select_item_def)

lemma map_id_store_row: "map g_id (store_row t r) = map g_id t"
  by (induction t) auto

lemma pk_store_row: "pk t \<Longrightarrow> pk (store_row t r)"
  by (simp add: pk_def map_id_store_row)

lemma pk_delete_step: "pk t \<Longrightarrow> pk (delete_step t u ds)"
  by (simp add: pk_def delete_step_def distinct_map_filter)

lemma select_store_row_other:
  "g_id r' \<noteq> i \<Longrightarrow> select_item (store_row t r') i u = select_item t i u"
  by (induction t) (auto simp: select_item_Cons)

lemma select_store_row_same:
  "pk t \<Longrightarrow> select_item t i u = Some r \<Longrightarrow> g_id r' = i \<Longrightarrow> g_user_id r' = u \<Longrightarrow>
   select_item (store_row t r') i u = Some r'"
proof (induction t)
  case Nil
  then show ?case by (simp add: select_item_def)
next
  case (Cons x xs)
  show ?case
  proof (cases "g_id x = i")
    case True
    then show ?thesis using Cons.prems by (simp add: select_item_Cons)
  next
    case False
    with Cons.prems have "select_item xs i u = Some r" "pk xs"
      by (auto simp: select_item_Cons pk_def)
    with Cons.IH Cons.prems(3,4) False show ?thesis
      by (simp add: select_item_Cons)
  qed
qed

lemma select_other_user_None:
  "pk t \<Longrightarrow> select_item t i u = Some r \<Longrightarrow> v \<noteq> u \<Longrightarrow> select_item t i v = None"
  by (auto simp: select_item_None_iff pk_def distinct_map inj_on_def dest!: select_item_SomeD)

lemma others_store_row:
  "pk t \<Longrightarrow> select_item t i u = Some r \<Longrightarrow> g_id r' = i \<Longrightarrow> g_user_id r' = u \<Longrightarrow>
   others (store_row t r') u = others t u"
proof (induction t)
  case Nil
  then show ?case by simp
next
  case (Cons x xs)
  show ?case
  proof (cases "g_id x = i")
    case True
    have "x = r"
    proof (rule ccontr)
      assume "x \<noteq> r"
      moreover from Cons.prems(2) have "r \<in> set (x # xs)" "g_id r = i"
        by (auto dest: select_item_SomeD)
      ultimately have "r \<in> set xs" "g_id r = g_id x"
        using True by auto
      then have "g_id x \<in> set (map g_id xs)"
        by (metis image_eqI set_map)
      with Cons.prems(1) show False
        by (simp add: pk_def)
    qed
    with Cons.prems True show ?thesis
      by (auto simp: others_def dest!: select_item_SomeD)
  next
    case False
    with Cons.prems have "select_item xs i u = Some r" "pk xs"
      by (auto simp: select_item_Cons pk_def)
    with Cons.IH Cons.prems(3,4) False show ?thesis
      by (simp add: others_def)
  qed
qed

lemma others_delete_step: "others (delete_step t u ds) u = others t u"
  by (auto simp: others_def delete_step_def intro: filter_cong)

lemma kept_flush_overwrite: "kept (flush_update e r (overwrite c r)) = kept r"
  by (simp add: kept_def flush_update_def overwrite_def)

lemma carries_overwrite: "carries c (overwrite c r)"
  by (simp add: carries_def overwrite_def)

lemma carries_flush_overwrite: "carries c (flush_update e r (overwrite c r))"
  using carries_overwrite [of c r]
  by (cases "overwrite c r = r") (simp_all add: flush_update_def carries_def)

lemma carries_new_item: "carries c (new_item e i u c)"
  by (simp add: carries_def new_item_def)

lemma kept_new_item: "kept (new_item e i u c) = (i, u, db_now e, False, None, None, None)"
  by (simp add: kept_def new_item_def)

section \<open>Verification: the sync loop\<close>

lemma choose_id_given: "c_id c = Some i \<Longrightarrow> i \<noteq> [] \<Longrightarrow> choose_id e n c = (i, n)"
  by (simp add: choose_id_def)

lemma choose_id_generated:
  "c_id c = None \<or> c_id c = Some [] \<Longrightarrow> choose_id e n c = (uuid4 e n, Suc n)"
  by (auto simp: choose_id_def)

lemma choose_id_other:
  "c_id c \<noteq> Some X \<Longrightarrow> X \<notin> range (uuid4 e) \<Longrightarrow> fst (choose_id e n c) \<noteq> X"
  by (auto simp: choose_id_def split: option.splits)

lemma sync_item_unfold:
  "sync_item e u (t, n) c =
     (case select_item t (fst (choose_id e n c)) u of
        Some existing_item \<Rightarrow>
          Inr (store_row t (flush_update e existing_item (overwrite c existing_item)),
               snd (choose_id e n c))
      | None \<Rightarrow>
          (case insert_row t (new_item e (fst (choose_id e n c)) u c) of
             Inl ex \<Rightarrow> Inl ex
           | Inr t' \<Rightarrow> Inr (t', snd (choose_id e n c))))"
  by (cases "choose_id e n c") (auto simp: sync_item_def split: option.splits sum.splits)

lemma id_flush_overwrite:
  "g_id (flush_update e r (overwrite c r)) = g_id r"
  "g_user_id (flush_update e r (overwrite c r)) = g_user_id r"
  using kept_flush_overwrite [of e r c] by (simp_all add: kept_def)

lemma id_new_item: "g_id (new_item e i u c) = i" "g_user_id (new_item e i u c) = u"
  by (simp_all add: new_item_def)

lemma insert_row_InrD:
  "insert_row t r = Inr t' \<Longrightarrow> t' = t @ [r] \<and> g_id r \<notin> set (map g_id t) \<and> length (g_id r) \<le> 36"
  by (auto simp: insert_row_def split: if_splits)

lemma step_pk:
  assumes "pk t" and "sync_item e u (t, n) c = Inr (t', n')"
  shows "pk t'"
  using assms
  by (auto simp: sync_item_unfold map_id_store_row pk_def id_new_item
           split: option.splits sum.splits dest!: insert_row_InrD)

lemma step_frame:
  assumes "sync_item e u (t, n) c = Inr (t', n')" and "fst (choose_id e n c) \<noteq> X"
  shows "select_item t' X v = select_item t X v"
proof (cases "select_item t (fst (choose_id e n c)) u")
  case None
  with assms show ?thesis
    by (auto simp: sync_item_unfold select_item_append_new id_new_item
             split: sum.splits option.splits dest!: insert_row_InrD)
next
  case (Some ex)
  then have "g_id ex = fst (choose_id e n c)"
    by (auto dest: select_item_SomeD)
  with Some assms show ?thesis
    by (auto simp: sync_item_unfold select_store_row_other id_flush_overwrite)
qed

lemma step_others:
  assumes "pk t" and "sync_item e u (t, n) c = Inr (t', n')"
  shows "others t' u = others t u"
proof (cases "select_item t (fst (choose_id e n c)) u")
  case None
  with assms show ?thesis
    by (auto simp: sync_item_unfold others_def id_new_item
             split: sum.splits dest!: insert_row_InrD)
next
  case (Some ex)
  then have "g_id ex = fst (choose_id e n c)" "g_user_id ex = u"
    by (auto dest: select_item_SomeD)
  with Some assms others_store_row [OF assms(1) Some, of "flush_update e ex (overwrite c ex)"]
  show ?thesis
    by (auto simp: sync_item_unfold id_flush_overwrite)
qed

lemma step_target:
  assumes "pk t" and "sync_item e u (t, n) c = Inr (t', n')"
  shows "\<exists>r'. select_item t' (fst (choose_id e n c)) u = Some r' \<and> carries c r'
           \<and> kept r' = (case select_item t (fst (choose_id e n c)) u of
                          Some r \<Rightarrow> kept r
                        | None \<Rightarrow> (fst (choose_id e n c), u, db_now e, False, None, None, None))"
proof (cases "select_item t (fst (choose_id e n c)) u")
  case None
  with assms show ?thesis
    by (auto simp: sync_item_unfold select_item_append_new id_new_item carries_new_item
                   kept_new_item
             split: sum.splits dest!: insert_row_InrD)
next
  case (Some ex)
  then have ids: "g_id ex = fst (choose_id e n c)" "g_user_id ex = u"
    by (auto dest: select_item_SomeD)
  let ?r = "flush_update e ex (overwrite c ex)"
  from assms Some have t': "t' = store_row t ?r"
    by (simp add: sync_item_unfold)
  have "select_item (store_row t ?r) (fst (choose_id e n c)) u = Some ?r"
    using select_store_row_same [OF assms(1) Some] ids by (simp add: id_flush_overwrite)
  with t' Some show ?thesis
    by (simp add: carries_flush_overwrite kept_flush_overwrite)
qed

lemma sync_items_append:
  "sync_items e u s (xs @ ys) =
     (case sync_items e u s xs of Inl ex \<Rightarrow> Inl ex | Inr s' \<Rightarrow> sync_items e u s' ys)"
  by (induction xs arbitrary: s) (auto split: sum.splits)

lemma loop_pk:
  "pk t \<Longrightarrow> sync_items e u (t, n) cs = Inr (t', n') \<Longrightarrow> pk t'"
proof (induction cs arbitrary: t n)
  case Nil
  then show ?case by simp
next
  case (Cons c cs)
  then show ?case
    by (auto split: sum.splits dest: step_pk)
qed


lemma loop_frame:
  "sync_items e u (t, n) cs = Inr (t', n') \<Longrightarrow> \<forall>c\<in>set cs. c_id c \<noteq> Some X \<Longrightarrow>
   X \<notin> range (uuid4 e) \<Longrightarrow> select_item t' X v = select_item t X v"
proof (induction cs arbitrary: t n)
  case Nil
  then show ?case by simp
next
  case (Cons c cs)
  from Cons.prems(1) obtain t1 n1 where
    s: "sync_item e u (t, n) c = Inr (t1, n1)" and r: "sync_items e u (t1, n1) cs = Inr (t', n')"
    by (auto split: sum.splits)
  from Cons.prems have "fst (choose_id e n c) \<noteq> X"
    by (simp add: choose_id_other)
  with s have "select_item t1 X v = select_item t X v"
    by (rule step_frame)
  moreover from r Cons.prems have "select_item t' X v = select_item t1 X v"
    by (intro Cons.IH) auto
  ultimately show ?case by simp
qed

lemma loop_kept_existing:
  "pk t \<Longrightarrow> select_item t X u = Some r \<Longrightarrow> sync_items e u (t, n) cs = Inr (t', n') \<Longrightarrow>
   \<exists>r'. select_item t' X u = Some r' \<and> kept r' = kept r"
proof (induction cs arbitrary: t n r)
  case Nil
  then show ?case by simp
next
  case (Cons c cs)
  from Cons.prems(3) obtain t1 n1 where
    s: "sync_item e u (t, n) c = Inr (t1, n1)" and r: "sync_items e u (t1, n1) cs = Inr (t', n')"
    by (auto split: sum.splits)
  have "\<exists>r1. select_item t1 X u = Some r1 \<and> kept r1 = kept r"
  proof (cases "fst (choose_id e n c) = X")
    case True
    with step_target [OF Cons.prems(1) s] Cons.prems(2) show ?thesis by auto
  next
    case False
    with step_frame [OF s, of X u] Cons.prems(2) show ?thesis by simp
  qed
  then obtain r1 where r1: "select_item t1 X u = Some r1" "kept r1 = kept r" by blast
  from Cons.IH [OF step_pk [OF Cons.prems(1) s] r1(1) r] r1(2) show ?case by simp
qed

lemma loop_kept_new:
  "pk t \<Longrightarrow> select_item t X u = None \<Longrightarrow> sync_items e u (t, n) cs = Inr (t', n') \<Longrightarrow>
   select_item t' X u = Some r' \<Longrightarrow> kept r' = (X, u, db_now e, False, None, None, None)"
proof (induction cs arbitrary: t n)
  case Nil
  then show ?case by simp
next
  case (Cons c cs)
  from Cons.prems(3) obtain t1 n1 where
    s: "sync_item e u (t, n) c = Inr (t1, n1)" and r: "sync_items e u (t1, n1) cs = Inr (t', n')"
    by (auto split: sum.splits)
  note pk1 = step_pk [OF Cons.prems(1) s]
  show ?case
  proof (cases "select_item t1 X u")
    case None
    from Cons.IH [OF pk1 None r Cons.prems(4)] show ?thesis .
  next
    case (Some r1)
    have "fst (choose_id e n c) = X"
    proof (rule ccontr)
      assume "fst (choose_id e n c) \<noteq> X"
      with step_frame [OF s, of X u] Cons.prems(2) Some show False by simp
    qed
    with step_target [OF Cons.prems(1) s] Cons.prems(2) Some
    have k1: "kept r1 = (X, u, db_now e, False, None, None, None)" by auto
    from loop_kept_existing [OF pk1 Some r] Cons.prems(4) have "kept r' = kept r1" by auto
    with k1 show ?thesis by simp
  qed
qed

lemma last_write:
  assumes "pk t"
    and "sync_items e u (t, n) (pre @ c # post) = Inr (t', n')"
    and "c_id c = Some X" and "X \<noteq> []"
    and "\<forall>d\<in>set post. c_id d \<noteq> Some X"
    and "X \<notin> range (uuid4 e)"
  shows "\<exists>r'. select_item t' X u = Some r' \<and> carries c r'"
proof -
  from assms(2) obtain t1 n1 t2 n2 where
    p: "sync_items e u (t, n) pre = Inr (t1, n1)"
    and s: "sync_item e u (t1, n1) c = Inr (t2, n2)"
    and r: "sync_items e u (t2, n2) post = Inr (t', n')"
    by (auto simp: sync_items_append split: sum.splits)
  have "fst (choose_id e n1 c) = X"
    using assms(3,4) by (simp add: choose_id_given)
  with step_target [OF loop_pk [OF assms(1) p] s]
  obtain r' where "select_item t2 X u = Some r'" "carries c r'" by auto
  with loop_frame [OF r assms(5) assms(6), of u] show ?thesis by simp
qed

lemma select_delete_step_deleted:
  "X \<in> set ds \<Longrightarrow> select_item (delete_step t u ds) X u = None"
  by (auto simp: select_item_None_iff delete_step_def)

lemma sync_groceries_InrD:
  assumes "sync_groceries e db u body = (Inr resp, db')"
  shows "\<exists>rq n. validate_sync_request body = Inr rq
           \<and> sync_items e u (delete_step db u (sq_deleted_ids rq), 0) (sq_items rq) = Inr (db', n)
           \<and> resp = \<lparr>sr_items = map grocery_to_response (select_user_items db' u),
                      sr_deleted_ids = [], sr_sync_timestamp = utcnow e\<rparr>"
  using assms
  by (auto simp: sync_groceries_def get_db_def Let_def split: sum.splits prod.splits)


lemma response_member:
  "select_item t X u = Some r \<Longrightarrow>
   grocery_to_response r \<in> set (map grocery_to_response (select_user_items t u))"
  by (auto simp: select_user_items_def dest!: select_item_SomeD)

lemma validate_item_error: "validate_item b = Inl ex \<Longrightarrow> ex = ValidationError"
  by (auto simp: validate_item_def Let_def split: option.splits if_splits)

lemma validate_items_invalid:
  "\<exists>b\<in>set bs. \<exists>ex. validate_item b = Inl ex \<Longrightarrow> validate_items bs = Inl ValidationError"
proof (induction bs)
  case Nil
  then show ?case by simp
next
  case (Cons b bs)
  show ?case
  proof (cases "validate_item b")
    case (Inl ex)
    then show ?thesis using validate_item_error [OF Inl] by simp
  next
    case (Inr c)
    with Cons show ?thesis by (auto split: sum.splits)
  qed
qed

lemma step_succeeds:
  assumes "pk t"
    and "length (fst (choose_id e n c)) \<le> 36"
    and "fst (choose_id e n c) \<notin> set (map g_id (others t u))"
  shows "\<exists>t'. sync_item e u (t, n) c = Inr (t', snd (choose_id e n c))"
proof (cases "select_item t (fst (choose_id e n c)) u")
  case (Some ex)
  then show ?thesis by (simp add: sync_item_unfold)
next
  case None
  have "fst (choose_id e n c) \<notin> set (map g_id t)"
  proof
    assume "fst (choose_id e n c) \<in> set (map g_id t)"
    then obtain r where r: "r \<in> set t" "g_id r = fst (choose_id e n c)" by auto
    show False
    proof (cases "g_user_id r = u")
      case True
      with r None show False by (auto simp: select_item_None_iff)
    next
      case False
      with r have "r \<in> set (others t u)" by (simp add: others_def)
      with r(2) assms(3) show False by force
    qed
  qed
  with None assms(2) show ?thesis
    by (simp add: sync_item_unfold insert_row_def id_new_item)
qed

lemma choose_id_counter: "snd (choose_id e n c) = n \<or> snd (choose_id e n c) = Suc n"
  by (auto simp: choose_id_def split: option.splits)

lemma choose_id_fst:
  "fst (choose_id e n c) = uuid4 e n \<or> (c_id c = Some (fst (choose_id e n c)) \<and> fst (choose_id e n c) \<noteq> [])"
  by (auto simp: choose_id_def split: option.splits)

lemma loop_succeeds:
  assumes "pk t"
    and "\<forall>c\<in>set cs. \<forall>i. c_id c = Some i \<longrightarrow> i \<noteq> [] \<longrightarrow>
           length i \<le> 36 \<and> i \<notin> set (map g_id (others t u))"
    and "\<forall>k. n \<le> k \<and> k < n + length cs \<longrightarrow>
           length (uuid4 e k) \<le> 36 \<and> uuid4 e k \<notin> set (map g_id (others t u))"
  shows "\<exists>t' n'. sync_items e u (t, n) cs = Inr (t', n')"
  using assms
proof (induction cs arbitrary: t n)
  case Nil
  then show ?case by simp
next
  case (Cons c cs)
  let ?i = "fst (choose_id e n c)"
  let ?n1 = "snd (choose_id e n c)"
  have ok: "length ?i \<le> 36 \<and> ?i \<notin> set (map g_id (others t u))"
  proof (cases "?i = uuid4 e n")
    case True
    with Cons.prems(3) [rule_format, of n] show ?thesis by simp
  next
    case False
    with choose_id_fst [of e n c] have "c_id c = Some ?i" "?i \<noteq> []" by auto
    with Cons.prems(2) show ?thesis by auto
  qed
  with step_succeeds [OF Cons.prems(1), of e n c u]
  obtain t1 where s: "sync_item e u (t, n) c = Inr (t1, ?n1)" by blast
  note pk1 = step_pk [OF Cons.prems(1) s]
  have o1: "others t1 u = others t u" by (rule step_others [OF Cons.prems(1) s])
  have a: "\<forall>c\<in>set cs. \<forall>i. c_id c = Some i \<longrightarrow> i \<noteq> [] \<longrightarrow>
           length i \<le> 36 \<and> i \<notin> set (map g_id (others t1 u))"
    using Cons.prems(2) o1 by simp
  have b: "\<forall>k. ?n1 \<le> k \<and> k < ?n1 + length cs \<longrightarrow>
           length (uuid4 e k) \<le> 36 \<and> uuid4 e k \<notin> set (map g_id (others t1 u))"
  proof (intro allI impI)
    fix k assume k: "?n1 \<le> k \<and> k < ?n1 + length cs"
    with choose_id_counter [of e n c] have "n \<le> k \<and> k < n + length (c # cs)" by auto
    with Cons.prems(3) o1 show "length (uuid4 e k) \<le> 36 \<and> uuid4 e k \<notin> set (map g_id (others t1 u))"
      by simp
  qed
  from Cons.IH [OF pk1 a b] s show ?case by simp
qed



lemma sync_item_counter:
  "sync_item e u (t, n) c = Inr (t', n') \<Longrightarrow> n' = snd (choose_id e n c)"
  by (auto simp: sync_item_unfold split: option.splits sum.splits)

lemma loop_counter:
  "sync_items e u (t, n) cs = Inr (t', n') \<Longrightarrow> n' = counter_after e n cs"
proof (induction cs arbitrary: t n)
  case Nil
  then show ?case by simp
next
  case (Cons c cs)
  from Cons.prems obtain t1 n1 where
    s: "sync_item e u (t, n) c = Inr (t1, n1)" and r: "sync_items e u (t1, n1) cs = Inr (t', n')"
    by (auto split: sum.splits)
  from sync_item_counter [OF s] Cons.IH [OF r] show ?case by simp
qed

lemma counter_after_append:
  "counter_after e n (xs @ ys) = counter_after e (counter_after e n xs) ys"
  by (induction xs arbitrary: n) auto

lemma loop_frame_chosen:
  "sync_items e u (t, n) cs = Inr (t', n') \<Longrightarrow> X \<notin> set (chosen_ids e n cs) \<Longrightarrow>
   select_item t' X v = select_item t X v"
proof (induction cs arbitrary: t n)
  case Nil
  then show ?case by simp
next
  case (Cons c cs)
  from Cons.prems(1) obtain t1 n1 where
    s: "sync_item e u (t, n) c = Inr (t1, n1)" and r: "sync_items e u (t1, n1) cs = Inr (t', n')"
    by (auto split: sum.splits)
  from Cons.prems(2) have ne: "fst (choose_id e n c) \<noteq> X"
    and rest: "X \<notin> set (chosen_ids e (snd (choose_id e n c)) cs)"
    by auto
  from s ne have "select_item t1 X v = select_item t X v"
    by (rule step_frame)
  moreover from rest sync_item_counter [OF s] have "X \<notin> set (chosen_ids e n1 cs)" by simp
  with r have "select_item t' X v = select_item t1 X v"
    by (rule Cons.IH)
  ultimately show ?case by simp
qed

lemma select_delete_step_kept:
  "X \<notin> set ds \<Longrightarrow> select_item (delete_step t u ds) X v = select_item t X v"
  by (induction t) (auto simp: delete_step_def select_item_Cons)


lemma sync_groceries_split:
  assumes "sync_groceries e db u body = (Inr resp, db')"
    and "validate_sync_request body = Inr rq"
    and "sq_items rq = pre @ c # post"
  shows "\<exists>t1 t2 n.
           sync_items e u (delete_step db u (sq_deleted_ids rq), 0) pre
             = Inr (t1, counter_after e 0 pre)
           \<and> sync_item e u (t1, counter_after e 0 pre) c
               = Inr (t2, counter_after e 0 (pre @ [c]))
           \<and> sync_items e u (t2, counter_after e 0 (pre @ [c])) post = Inr (db', n)
           \<and> sr_items resp = map grocery_to_response (select_user_items db' u)"
proof -
  let ?t = "delete_step db u (sq_deleted_ids rq)"
  from sync_groceries_InrD [OF assms(1)] assms(2) obtain n where
    l: "sync_items e u (?t, 0) (sq_items rq) = Inr (db', n)"
    and resp: "sr_items resp = map grocery_to_response (select_user_items db' u)"
    by auto
  from l assms(3) obtain t1 n1 t2 n2 where
    p: "sync_items e u (?t, 0) pre = Inr (t1, n1)"
    and s: "sync_item e u (t1, n1) c = Inr (t2, n2)"
    and r: "sync_items e u (t2, n2) post = Inr (db', n)"
    by (auto simp: sync_items_append split: sum.splits)
  from loop_counter [OF p] have n1: "n1 = counter_after e 0 pre" .
  from sync_item_counter [OF s] n1 have n2: "n2 = counter_after e 0 (pre @ [c])"
    by (simp add: counter_after_append)
  from p s r resp n1 n2 show ?thesis by blast
qed

lemma insert_row_taken:
  "g_id r \<in> set (map g_id t) \<Longrightarrow> \<exists>ex. insert_row t r = Inl ex"
  by (simp add: insert_row_def)

lemma step_rejects:
  assumes "pk t" and "c_id c = Some X" and "X \<noteq> []"
    and "X \<in> set (map g_id (others t u))"
  shows "\<exists>ex. sync_item e u (t, n) c = Inl ex"
proof -
  from assms(4) obtain r where r: "r \<in> set t" "g_id r = X" "g_user_id r \<noteq> u"
    by (auto simp: others_def)
  have ch: "choose_id e n c = (X, n)"
    using assms(2,3) by (rule choose_id_given)
  have none: "select_item t X u = None"
  proof (cases "select_item t X u")
    case (Some r0)
    then have "r0 \<in> set t" "g_id r0 = X" "g_user_id r0 = u"
      by (auto dest: select_item_SomeD)
    with r assms(1) have "r0 = r"
      by (auto simp: pk_def distinct_map inj_on_def)
    with \<open>g_user_id r0 = u\<close> r(3) show ?thesis by simp
  qed simp
  from r have "g_id (new_item e X u c) \<in> set (map g_id t)"
    by (auto simp: id_new_item)
  from insert_row_taken [OF this] obtain ex where "insert_row t (new_item e X u c) = Inl ex"
    by blast
  with ch none show ?thesis
    by (simp add: sync_item_unfold)
qed

lemma loop_rejects:
  assumes "pk t" and "c \<in> set cs" and "c_id c = Some X" and "X \<noteq> []"
    and "X \<in> set (map g_id (others t u))"
  shows "\<exists>ex. sync_items e u (t, n) cs = Inl ex"
  using assms
proof (induction cs arbitrary: t n)
  case Nil
  then show ?case by simp
next
  case (Cons d ds)
  show ?case
  proof (cases "sync_item e u (t, n) d")
    case (Inl ex)
    then show ?thesis by simp
  next
    case (Inr s')
    obtain t' n' where s': "s' = (t', n')" by (cases s')
    have "d \<noteq> c"
      using step_rejects [OF Cons.prems(1,3,4,5), of e n] Inr by auto
    with Cons.prems(2) have mem: "c \<in> set ds" by simp
    have p: "pk t'" using step_pk [OF Cons.prems(1)] Inr s' by simp
    have o: "others t' u = others t u" using step_others [OF Cons.prems(1)] Inr s' by simp
    from Cons.IH [OF p mem Cons.prems(3,4), of n'] o Cons.prems(5) Inr s'
    show ?thesis by simp
  qed
qed

section \<open>Verification: the sync endpoint\<close>

lemma validate_milk: "validate_item milk_body = Inr milk"
  by (simp add: validate_item_def milk_body_def milk_def FoodCategory_of_def StorageLocation_of_def)

lemma validate_milk_x1: "validate_item (milk_body\<lparr>b_id := Some ''x1''\<rparr>) = Inr milk_x1"
  by (simp add: validate_item_def milk_body_def milk_x1_def milk_def FoodCategory_of_def
        StorageLocation_of_def)

lemma validate_bad: "validate_item bad_body = Inl ValidationError"
  by (simp add: validate_item_def bad_body_def milk_body_def FoodCategory_of_def)

lemma validate_delete_and_update:
  "validate_sync_request body_delete_and_update = Inr request_delete_and_update"
  by (simp add: validate_sync_request_def body_delete_and_update_def validate_milk_x1
        request_delete_and_update_def)

lemma validate_update: "validate_sync_request body_update = Inr request_update"
  by (simp add: validate_sync_request_def body_update_def validate_milk_x1 request_update_def)

lemma x1_not_generated: "''x1'' \<notin> range (uuid4 request_env)"
  by (auto simp: request_env_def)

lemma pk_eggs: "pk [eggs_row]"
  by (simp add: pk_def)

lemma select_eggs: "select_item [eggs_row] ''x1'' ''alice'' = Some eggs_row"
  by (simp add: select_item_def eggs_row_def)

lemma sync_delete_and_update:
  "sync_groceries request_env [eggs_row] ''alice'' body_delete_and_update
   = (Inr \<lparr>sr_items = [grocery_to_response (new_item request_env ''x1'' ''alice'' milk_x1)],
           sr_deleted_ids = [], sr_sync_timestamp = 500\<rparr>,
      [new_item request_env ''x1'' ''alice'' milk_x1])"
  by (simp add: sync_groceries_def get_db_def validate_delete_and_update request_delete_and_update_def
       delete_step_def eggs_row_def sync_item_def choose_id_def milk_x1_def milk_def
       select_item_def insert_row_def new_item_def select_user_items_def request_env_def)

lemma sync_update:
  "sync_groceries request_env [eggs_row] ''alice'' body_update
   = (Inr \<lparr>sr_items = [grocery_to_response
                          ((overwrite milk_x1 eggs_row)\<lparr>g_updated_at := 501\<rparr>)],
           sr_deleted_ids = [], sr_sync_timestamp = 500\<rparr>,
      [(overwrite milk_x1 eggs_row)\<lparr>g_updated_at := 501\<rparr>])"
  by (simp add: sync_groceries_def get_db_def validate_update request_update_def
       delete_step_def eggs_row_def sync_item_def choose_id_def milk_x1_def milk_def
       select_item_def overwrite_def flush_update_def select_user_items_def request_env_def)

lemma validate_two: "validate_sync_request body_two = Inr request_two"
  by (simp add: validate_sync_request_def body_two_def validate_milk validate_milk_x1
        request_two_def)


lemma sync_two_update:
  "sync_groceries request_env [eggs_row] ''alice'' body_two
   = (Inr \<lparr>sr_items = [grocery_to_response overwritten_row, grocery_to_response generated_row],
           sr_deleted_ids = [], sr_sync_timestamp = 500\<rparr>,
      [overwritten_row, generated_row])"
  by (simp add: sync_groceries_def get_db_def validate_two request_two_def
       delete_step_def eggs_row_def sync_item_def choose_id_def milk_x1_def milk_def
       select_item_def insert_row_def new_item_def select_user_items_def request_env_def
       generated_row_def overwritten_row_def overwrite_def flush_update_def)


text \<open>
  C1, as the claim states it, fails: Alice deletes \<open>x1\<close> and submits an item with the id
  \<open>x1\<close> in one call; the stored record is deleted, then the loop finds no record and
  inserts the submitted item, and the response holds an item with the id \<open>x1\<close>.
\<close>

theorem sync_delete_wins_counterexample:
  "select_item [eggs_row] ''x1'' ''alice'' = Some eggs_row
   \<and> sb_deleted_ids body_delete_and_update = [''x1'']
   \<and> map b_id (sb_items body_delete_and_update) = [Some ''x1'']
   \<and> sync_groceries request_env [eggs_row] ''alice'' body_delete_and_update
       = (Inr \<lparr>sr_items = [grocery_to_response (new_item request_env ''x1'' ''alice'' milk_x1)],
               sr_deleted_ids = [], sr_sync_timestamp = 500\<rparr>,
          [new_item request_env ''x1'' ''alice'' milk_x1])
   \<and> rs_id (grocery_to_response (new_item request_env ''x1'' ''alice'' milk_x1)) = ''x1''"
proof -
  have "sb_deleted_ids body_delete_and_update = [''x1'']"
    and "map b_id (sb_items body_delete_and_update) = [Some ''x1'']"
    by (simp_all add: body_delete_and_update_def)
  moreover have "rs_id (grocery_to_response (new_item request_env ''x1'' ''alice'' milk_x1)) = ''x1''"
    by (simp add: grocery_to_response_def new_item_def)
  ultimately show ?thesis
    using select_eggs sync_delete_and_update by simp
qed

text \<open>
  C1, amended. When \<open>deleted_ids\<close> contains an id \<open>X\<close> owned by the caller and the
  submitted items contain an item with the id \<open>X\<close>, the delete step runs before the
  loop: the stored record is deleted and the submitted item is inserted as a new record
  under \<open>X\<close>. After a sync that succeeds, \<open>X\<close> is in the committed table and in the
  response; it carries the values of the last submitted item with the id \<open>X\<close>, the
  creation timestamp of this call, and the defaults of a new row.
\<close>

theorem sync_delete_then_reinsert:
  assumes "pk db"
    and "validate_sync_request body = Inr rq"
    and "X \<in> set (sq_deleted_ids rq)"
    and "select_item db X u = Some old"
    and "sq_items rq = pre @ c # post"
    and "c_id c = Some X" and "X \<noteq> []"
    and "\<forall>d\<in>set post. c_id d \<noteq> Some X"
    and "X \<notin> range (uuid4 e)"
    and "sync_groceries e db u body = (Inr resp, db')"
  shows "\<exists>r'. select_item db' X u = Some r' \<and> carries c r'
           \<and> kept r' = (X, u, db_now e, False, None, None, None)
           \<and> grocery_to_response r' \<in> set (sr_items resp)"
proof -
  let ?t = "delete_step db u (sq_deleted_ids rq)"
  from sync_groceries_InrD [OF assms(10)] assms(2) obtain n where
    l: "sync_items e u (?t, 0) (sq_items rq) = Inr (db', n)"
    and resp: "sr_items resp = map grocery_to_response (select_user_items db' u)"
    by auto
  have pkt: "pk ?t" by (rule pk_delete_step [OF assms(1)])
  have gone: "select_item ?t X u = None"
    by (rule select_delete_step_deleted [OF assms(3)])
  from l assms(5) have l': "sync_items e u (?t, 0) (pre @ c # post) = Inr (db', n)"
    by simp
  from last_write [OF pkt l' assms(6) assms(7) assms(8) assms(9)]
  obtain r' where r': "select_item db' X u = Some r'" "carries c r'" by blast
  from loop_kept_new [OF pkt gone l r'(1)]
  have "kept r' = (X, u, db_now e, False, None, None, None)" .
  with r' response_member [OF r'(1)] resp show ?thesis by auto
qed

theorem sync_delete_then_reinsert_witness:
  "pk [eggs_row]
   \<and> validate_sync_request body_delete_and_update = Inr request_delete_and_update
   \<and> ''x1'' \<in> set (sq_deleted_ids request_delete_and_update)
   \<and> select_item [eggs_row] ''x1'' ''alice'' = Some eggs_row
   \<and> sq_items request_delete_and_update = [] @ milk_x1 # []
   \<and> c_id milk_x1 = Some ''x1'' \<and> ''x1'' \<noteq> []
   \<and> ''x1'' \<notin> range (uuid4 request_env)
   \<and> sync_groceries request_env [eggs_row] ''alice'' body_delete_and_update
       = (Inr \<lparr>sr_items = [grocery_to_response (new_item request_env ''x1'' ''alice'' milk_x1)],
               sr_deleted_ids = [], sr_sync_timestamp = 500\<rparr>,
          [new_item request_env ''x1'' ''alice'' milk_x1])
   \<and> (\<exists>r'. select_item [new_item request_env ''x1'' ''alice'' milk_x1] ''x1'' ''alice'' = Some r'
          \<and> carries milk_x1 r'
          \<and> kept r' = (''x1'', ''alice'', db_now request_env, False, None, None, None)
          \<and> grocery_to_response r'
              \<in> set [grocery_to_response (new_item request_env ''x1'' ''alice'' milk_x1)])"
proof -
  have h3: "''x1'' \<in> set (sq_deleted_ids request_delete_and_update)"
    by (simp add: request_delete_and_update_def)
  have h5: "sq_items request_delete_and_update = [] @ milk_x1 # []"
    by (simp add: request_delete_and_update_def)
  have h6: "c_id milk_x1 = Some ''x1''" by (simp add: milk_x1_def)
  have h7: "''x1'' \<noteq> []" by simp
  have h8: "\<forall>d\<in>set []. c_id d \<noteq> Some ''x1''" by simp
  from sync_delete_then_reinsert [OF pk_eggs validate_delete_and_update h3 select_eggs h5 h6 h7
      h8 x1_not_generated sync_delete_and_update]
  have "\<exists>r'. select_item [new_item request_env ''x1'' ''alice'' milk_x1] ''x1'' ''alice'' = Some r'
          \<and> carries milk_x1 r'
          \<and> kept r' = (''x1'', ''alice'', db_now request_env, False, None, None, None)
          \<and> grocery_to_response r'
              \<in> set [grocery_to_response (new_item request_env ''x1'' ''alice'' milk_x1)]"
    by simp
  with pk_eggs validate_delete_and_update h3 select_eggs h5 h6 h7 h8 x1_not_generated
    sync_delete_and_update
  show ?thesis by blast
qed

text \<open>
  C4, as the claim states it, fails. Alice's record \<open>x1\<close> is stored, created at 10;
  she submits an item with the id \<open>x1\<close> and names \<open>x1\<close> in \<open>deleted_ids\<close> as
  well. The sync succeeds, the record is deleted and the item inserted as a new row: the
  record \<open>x1\<close> of the committed table has the creation timestamp of the insert, 501.
\<close>

theorem sync_recreates_deleted_counterexample:
  "select_item [eggs_row] ''x1'' ''alice'' = Some eggs_row
   \<and> g_created_at eggs_row = 10
   \<and> sb_deleted_ids body_delete_and_update = [''x1'']
   \<and> map b_id (sb_items body_delete_and_update) = [Some ''x1'']
   \<and> sync_groceries request_env [eggs_row] ''alice'' body_delete_and_update
       = (Inr \<lparr>sr_items = [grocery_to_response submitted_row],
               sr_deleted_ids = [], sr_sync_timestamp = 500\<rparr>,
          [submitted_row])
   \<and> g_id submitted_row = ''x1''
   \<and> g_created_at submitted_row = 501"
proof -
  have "g_created_at eggs_row = 10" by (simp add: eggs_row_def)
  moreover have "sb_deleted_ids body_delete_and_update = [''x1'']"
    and "map b_id (sb_items body_delete_and_update) = [Some ''x1'']"
    by (simp_all add: body_delete_and_update_def)
  moreover have "g_id submitted_row = ''x1''" "g_created_at submitted_row = 501"
    by (simp_all add: submitted_row_def new_item_def request_env_def)
  ultimately show ?thesis
    using select_eggs sync_delete_and_update by (simp add: submitted_row_def)
qed

text \<open>
  C4, amended. A sync call succeeds; a submitted item has the id \<open>X\<close>; a record with
  the id \<open>X\<close> is stored under the caller before the call, whatever its
  \<open>updated_at\<close>; \<open>X\<close> is not in \<open>deleted_ids\<close>; and no later item of the batch
  has the identifier \<open>X\<close>. Then the record \<open>X\<close> of the committed table carries
  the submitted value in each of the eleven fields of the item schema (name, category,
  storage location, quantity, unit, purchase date, expiration date, predicted expiration
  date, confidence score, barcode, notes), and its identity, owner, creation timestamp,
  \<open>is_consumed\<close>, \<open>consumed_date\<close>, external product id and image are those of the
  record stored before the call: the item schema has no field for them, and the update
  branch assigns none of them. The response holds the record.
\<close>

theorem sync_overwrites_existing:
  assumes "pk db"
    and "validate_sync_request body = Inr rq"
    and "select_item db X u = Some old"
    and "X \<notin> set (sq_deleted_ids rq)"
    and "sq_items rq = pre @ c # post"
    and "c_id c = Some X" and "X \<noteq> []"
    and "X \<notin> set (chosen_ids e (counter_after e 0 (pre @ [c])) post)"
    and "sync_groceries e db u body = (Inr resp, db')"
  shows "\<exists>r'. select_item db' X u = Some r' \<and> carries c r' \<and> kept r' = kept old
           \<and> g_created_at r' = g_created_at old
           \<and> g_is_consumed r' = g_is_consumed old
           \<and> g_consumed_date r' = g_consumed_date old
           \<and> grocery_to_response r' \<in> set (sr_items resp)"
proof -
  let ?t = "delete_step db u (sq_deleted_ids rq)"
  let ?n1 = "counter_after e 0 pre"
  let ?n2 = "counter_after e 0 (pre @ [c])"
  from sync_groceries_split [OF assms(9) assms(2) assms(5)] obtain t1 t2 n where
    p: "sync_items e u (?t, 0) pre = Inr (t1, ?n1)"
    and s: "sync_item e u (t1, ?n1) c = Inr (t2, ?n2)"
    and r: "sync_items e u (t2, ?n2) post = Inr (db', n)"
    and resp: "sr_items resp = map grocery_to_response (select_user_items db' u)"
    by blast
  have pkt: "pk ?t" by (rule pk_delete_step [OF assms(1)])
  note pk1 = loop_pk [OF pkt p]
  have "select_item ?t X u = Some old"
    using assms(3) by (simp add: select_delete_step_kept [OF assms(4)])
  from loop_kept_existing [OF pkt this p] obtain r1 where
    r1: "select_item t1 X u = Some r1" "kept r1 = kept old"
    by blast
  have tgt: "fst (choose_id e ?n1 c) = X"
    using assms(6,7) by (simp add: choose_id_given)
  from step_target [OF pk1 s] tgt r1 obtain r2 where
    r2: "select_item t2 X u = Some r2" "carries c r2" "kept r2 = kept old"
    by auto
  from loop_frame_chosen [OF r assms(8), of u] r2(1)
  have fin: "select_item db' X u = Some r2" by simp
  from r2(3) have "g_created_at r2 = g_created_at old" "g_is_consumed r2 = g_is_consumed old"
    "g_consumed_date r2 = g_consumed_date old"
    by (simp_all add: kept_def)
  with fin r2 response_member [OF fin] resp show ?thesis by auto
qed

theorem sync_overwrites_existing_witness:
  "pk [eggs_row]
   \<and> validate_sync_request body_two = Inr request_two
   \<and> select_item [eggs_row] ''x1'' ''alice'' = Some eggs_row
   \<and> ''x1'' \<notin> set (sq_deleted_ids request_two)
   \<and> sq_items request_two = [milk] @ milk_x1 # []
   \<and> c_id milk_x1 = Some ''x1'' \<and> ''x1'' \<noteq> []
   \<and> ''x1'' \<notin> set (chosen_ids request_env (counter_after request_env 0 ([milk] @ [milk_x1])) [])
   \<and> sync_groceries request_env [eggs_row] ''alice'' body_two
       = (Inr \<lparr>sr_items = [grocery_to_response overwritten_row,
                             grocery_to_response generated_row],
               sr_deleted_ids = [], sr_sync_timestamp = 500\<rparr>,
          [overwritten_row, generated_row])
   \<and> (\<exists>r'. select_item [overwritten_row, generated_row] ''x1'' ''alice'' = Some r'
          \<and> carries milk_x1 r' \<and> kept r' = kept eggs_row
          \<and> g_created_at r' = g_created_at eggs_row
          \<and> g_is_consumed r' = g_is_consumed eggs_row
          \<and> g_consumed_date r' = g_consumed_date eggs_row
          \<and> grocery_to_response r'
              \<in> set [grocery_to_response overwritten_row, grocery_to_response generated_row])"
proof -
  have h4: "''x1'' \<notin> set (sq_deleted_ids request_two)"
    by (simp add: request_two_def)
  have h5: "sq_items request_two = [milk] @ milk_x1 # []"
    by (simp add: request_two_def)
  have h6: "c_id milk_x1 = Some ''x1''" by (simp add: milk_x1_def)
  have h7: "''x1'' \<noteq> []" by simp
  have h8: "''x1'' \<notin> set (chosen_ids request_env
              (counter_after request_env 0 ([milk] @ [milk_x1])) [])"
    by simp
  from sync_overwrites_existing [OF pk_eggs validate_two select_eggs h4 h5 h6 h7 h8
      sync_two_update]
  have "\<exists>r'. select_item [overwritten_row, generated_row] ''x1'' ''alice'' = Some r'
          \<and> carries milk_x1 r' \<and> kept r' = kept eggs_row
          \<and> g_created_at r' = g_created_at eggs_row
          \<and> g_is_consumed r' = g_is_consumed eggs_row
          \<and> g_consumed_date r' = g_consumed_date eggs_row
          \<and> grocery_to_response r'
              \<in> set [grocery_to_response overwritten_row, grocery_to_response generated_row]"
    by simp
  with pk_eggs validate_two select_eggs h4 h5 h6 h7 h8 sync_two_update
  show ?thesis by blast
qed
lemma validate_new: "validate_sync_request body_new = Inr request_new"
  by (simp add: validate_sync_request_def body_new_def validate_milk request_new_def)

lemma validate_foreign: "validate_sync_request body_foreign = Inr request_foreign"
proof -
  have "validate_item (milk_body\<lparr>b_id := Some ''b1''\<rparr>) = Inr (milk\<lparr>c_id := Some ''b1''\<rparr>)"
    by (simp add: validate_item_def milk_body_def milk_def FoodCategory_of_def
          StorageLocation_of_def)
  then show ?thesis
    by (simp add: validate_sync_request_def body_foreign_def validate_milk request_foreign_def)
qed






text \<open>
  The end-to-end example of the specification: one item without an id, no deletion, an
  empty table. The response holds exactly one item, under the generated identifier.
\<close>

lemma sync_new_item_example:
  "sync_groceries request_env [] ''alice'' body_new
   = (Inr \<lparr>sr_items = [grocery_to_response (new_item request_env ''uuid-0'' ''alice'' milk)],
           sr_deleted_ids = [], sr_sync_timestamp = 500\<rparr>,
      [new_item request_env ''uuid-0'' ''alice'' milk])"
  by (simp add: sync_groceries_def get_db_def validate_new request_new_def
       delete_step_def sync_item_def choose_id_def milk_def
       select_item_def insert_row_def new_item_def select_user_items_def request_env_def)

lemma sync_foreign_batch:
  "sync_groceries request_env [eggs_row, bread_row] ''alice'' body_foreign
   = (Inl IntegrityError, [eggs_row, bread_row])"
  by (simp add: sync_groceries_def get_db_def validate_foreign request_foreign_def
       delete_step_def eggs_row_def bread_row_def sync_item_def choose_id_def milk_def
       select_item_def insert_row_def new_item_def request_env_def)

lemma validate_invalid: "validate_sync_request body_invalid = Inl ValidationError"
  by (simp add: validate_sync_request_def body_invalid_def validate_milk validate_bad)

text \<open>
  The first half of C9: a batch with an invalid item is rejected before the handler runs,
  and the committed table is the table before the call.
\<close>

lemma sync_invalid_batch_unchanged:
  assumes "\<exists>b\<in>set (sb_items body). \<exists>ex. validate_item b = Inl ex"
  shows "sync_groceries e db u body = (Inl ValidationError, db)"
  using validate_items_invalid [OF assms]
  by (simp add: sync_groceries_def validate_sync_request_def)

lemma sync_invalid_batch_example:
  "sync_groceries request_env [eggs_row] ''alice'' body_invalid
   = (Inl ValidationError, [eggs_row])"
  by (simp add: sync_groceries_def validate_invalid)

text \<open>
  C9. The second half of the claim fails in the code: a batch in which every item is
  valid is not applied when one of its items carries the id of another user's record. The
  loop looks the id up under the caller, finds no record and inserts a row under that id;
  the primary key refuses the insert, the handler raises, and the transaction is rolled
  back: the call fails and the committed table is the table before the call, the deletes
  and the earlier items of the batch included.
\<close>

theorem sync_valid_batch_not_applied:
  assumes "pk db" and "validate_sync_request body = Inr rq"
    and "c \<in> set (sq_items rq)" and "c_id c = Some X" and "X \<noteq> []"
    and "r \<in> set db" and "g_id r = X" and "g_user_id r \<noteq> u"
  shows "\<exists>ex. sync_groceries e db u body = (Inl ex, db)"
proof -
  let ?t = "delete_step db u (sq_deleted_ids rq)"
  from assms(6,7,8) have "X \<in> set (map g_id (others db u))"
    by (auto simp: others_def)
  then have "X \<in> set (map g_id (others ?t u))"
    by (simp add: others_delete_step)
  from loop_rejects [OF pk_delete_step [OF assms(1)] assms(3,4,5) this]
  obtain ex where "sync_items e u (?t, 0) (sq_items rq) = Inl ex"
    by blast
  with assms(2) show ?thesis
    by (simp add: sync_groceries_def get_db_def)
qed

theorem sync_valid_batch_not_applied_witness:
  "pk [eggs_row, bread_row]
   \<and> validate_sync_request body_foreign = Inr request_foreign
   \<and> milk\<lparr>c_id := Some ''b1''\<rparr> \<in> set (sq_items request_foreign)
   \<and> c_id (milk\<lparr>c_id := Some ''b1''\<rparr>) = Some ''b1'' \<and> ''b1'' \<noteq> []
   \<and> bread_row \<in> set [eggs_row, bread_row]
   \<and> g_id bread_row = ''b1'' \<and> g_user_id bread_row \<noteq> ''alice''
   \<and> (\<exists>ex. sync_groceries request_env [eggs_row, bread_row] ''alice'' body_foreign
             = (Inl ex, [eggs_row, bread_row]))
   \<and> sync_groceries request_env [eggs_row, bread_row] ''alice'' body_foreign
       = (Inl IntegrityError, [eggs_row, bread_row])"
proof -
  have h1: "pk [eggs_row, bread_row]"
    by (simp add: pk_def eggs_row_def bread_row_def)
  have h3: "milk\<lparr>c_id := Some ''b1''\<rparr> \<in> set (sq_items request_foreign)"
    by (simp add: request_foreign_def)
  have h4: "c_id (milk\<lparr>c_id := Some ''b1''\<rparr>) = Some ''b1''" by simp
  have h5: "''b1'' \<noteq> []" by simp
  have h6: "bread_row \<in> set [eggs_row, bread_row]" by simp
  have h7: "g_id bread_row = ''b1''" and h8: "g_user_id bread_row \<noteq> ''alice''"
    by (simp_all add: bread_row_def)
  from sync_valid_batch_not_applied [OF h1 validate_foreign h3 h4 h5 h6 h7 h8, of request_env]
  have "\<exists>ex. sync_groceries request_env [eggs_row, bread_row] ''alice'' body_foreign
             = (Inl ex, [eggs_row, bread_row])" .
  with h1 validate_foreign h3 h4 h5 h6 h7 h8 sync_foreign_batch show ?thesis by blast
qed
section \<open>Verification: the PATCH endpoint\<close>

lemma set_required_InrD: "set_required x old = Inr v \<Longrightarrow> x = None \<Longrightarrow> v = old"
  by (simp add: set_required_def)

lemma apply_update_InrD:
  assumes "apply_update upd item = Inr a"
  shows "\<exists>name category storage_location quantity unit purchase_date is_consumed.
           set_required (u_name upd) (g_name item) = Inr name
           \<and> set_required (map_option (map_option FoodCategory_value) (u_category upd))
                (g_category item) = Inr category
           \<and> set_required (map_option (map_option StorageLocation_value) (u_storage_location upd))
                (g_storage_location item) = Inr storage_location
           \<and> set_required (u_quantity upd) (g_quantity item) = Inr quantity
           \<and> set_required (u_unit upd) (g_unit item) = Inr unit
           \<and> set_required (u_purchase_date upd) (g_purchase_date item) = Inr purchase_date
           \<and> set_required (u_is_consumed upd) (g_is_consumed item) = Inr is_consumed
           \<and> a = item\<lparr>g_name := name,
                 g_category := category,
                 g_storage_location := storage_location,
                 g_quantity := quantity,
                 g_unit := unit,
                 g_purchase_date := purchase_date,
                 g_expiration_date :=
                   set_nullable (u_expiration_date upd) (g_expiration_date item),
                 g_predicted_expiration_date :=
                   set_nullable (u_predicted_expiration_date upd)
                     (g_predicted_expiration_date item),
                 g_confidence_score :=
                   set_nullable (u_confidence_score upd) (g_confidence_score item),
                 g_barcode := set_nullable (u_barcode upd) (g_barcode item),
                 g_notes := set_nullable (u_notes upd) (g_notes item),
                 g_is_consumed := is_consumed,
                 g_consumed_date :=
                   set_nullable (u_consumed_date upd) (g_consumed_date item)\<rparr>"
  using assms
  by (auto simp: apply_update_def bind_def split: sum.splits)

lemma apply_update_retains:
  assumes "apply_update upd item = Inr a"
  shows "omitted_fields_retained upd item a"
proof -
  from apply_update_InrD [OF assms] obtain name category storage_location quantity unit
    purchase_date is_consumed where
    f: "set_required (u_name upd) (g_name item) = Inr name"
       "set_required (map_option (map_option FoodCategory_value) (u_category upd))
                (g_category item) = Inr category"
       "set_required (map_option (map_option StorageLocation_value) (u_storage_location upd))
                (g_storage_location item) = Inr storage_location"
       "set_required (u_quantity upd) (g_quantity item) = Inr quantity"
       "set_required (u_unit upd) (g_unit item) = Inr unit"
       "set_required (u_purchase_date upd) (g_purchase_date item) = Inr purchase_date"
       "set_required (u_is_consumed upd) (g_is_consumed item) = Inr is_consumed"
    and a: "a = item\<lparr>g_name := name,
                 g_category := category,
                 g_storage_location := storage_location,
                 g_quantity := quantity,
                 g_unit := unit,
                 g_purchase_date := purchase_date,
                 g_expiration_date :=
                   set_nullable (u_expiration_date upd) (g_expiration_date item),
                 g_predicted_expiration_date :=
                   set_nullable (u_predicted_expiration_date upd)
                     (g_predicted_expiration_date item),
                 g_confidence_score :=
                   set_nullable (u_confidence_score upd) (g_confidence_score item),
                 g_barcode := set_nullable (u_barcode upd) (g_barcode item),
                 g_notes := set_nullable (u_notes upd) (g_notes item),
                 g_is_consumed := is_consumed,
                 g_consumed_date :=
                   set_nullable (u_consumed_date upd) (g_consumed_date item)\<rparr>"
    by blast
  have "u_name upd = None \<longrightarrow> name = g_name item"
    "u_category upd = None \<longrightarrow> category = g_category item"
    "u_storage_location upd = None \<longrightarrow> storage_location = g_storage_location item"
    "u_quantity upd = None \<longrightarrow> quantity = g_quantity item"
    "u_unit upd = None \<longrightarrow> unit = g_unit item"
    "u_purchase_date upd = None \<longrightarrow> purchase_date = g_purchase_date item"
    "u_is_consumed upd = None \<longrightarrow> is_consumed = g_is_consumed item"
    using f by (auto dest: set_required_InrD)
  then show ?thesis
    by (simp add: omitted_fields_retained_def a set_nullable_def)
qed

lemma flush_update_retains:
  "omitted_fields_retained upd item a \<Longrightarrow> omitted_fields_retained upd item (flush_update e item a)"
  by (simp add: omitted_fields_retained_def flush_update_def)

lemma update_grocery_found:
  assumes "pk db" and "select_item db item_id u = Some item"
    and "update_grocery e db u item_id upd = (Inr resp, db')"
  shows "\<exists>item'. select_item db' item_id u = Some item' \<and> resp = grocery_to_response item'
           \<and> omitted_fields_retained upd item item'
           \<and> (\<forall>j v. j \<noteq> item_id \<longrightarrow> select_item db' j v = select_item db j v)"
proof -
  from assms(2,3) obtain a where a: "apply_update upd item = Inr a"
    and db': "db' = store_row db (flush_update e item a)"
    and resp: "resp = grocery_to_response (flush_update e item a)"
    by (auto simp: update_grocery_def get_db_def Let_def split: sum.splits)
  let ?s = "flush_update e item a"
  have r: "omitted_fields_retained upd item ?s"
    by (rule flush_update_retains [OF apply_update_retains [OF a]])
  from assms(2) have "g_id item = item_id" "g_user_id item = u"
    by (auto dest: select_item_SomeD)
  with r have ids: "g_id ?s = item_id" "g_user_id ?s = u"
    by (simp_all add: omitted_fields_retained_def)
  from select_store_row_same [OF assms(1) assms(2) ids]
  have "select_item db' item_id u = Some ?s" by (simp add: db')
  moreover have "select_item db' j v = select_item db j v" if "j \<noteq> item_id" for j v
    using that ids(1) by (simp add: db' select_store_row_other)
  ultimately show ?thesis using resp r by blast
qed

lemma update_grocery_InlD:
  "fst (update_grocery e db u item_id upd) = Inl ex \<Longrightarrow>
   snd (update_grocery e db u item_id upd) = db"
  by (auto simp: update_grocery_def get_db_def Let_def split: option.splits sum.splits)

lemma update_rename:
  "update_grocery request_env [eggs_row] ''alice'' ''x1'' rename
   = (Inr (grocery_to_response renamed_row), [renamed_row])"
  by (simp add: update_grocery_def get_db_def select_item_def eggs_row_def rename_def apply_update_def
        bind_def set_required_def set_nullable_def flush_update_def request_env_def Let_def
        renamed_row_def)

text \<open>
  C10, as the claim states it, fails for one column: the request sets the name alone, and
  the stored \<open>updated_at\<close>, which no request can name, changes from 20 to the
  database's clock, 501.
\<close>

theorem update_grocery_updated_at_counterexample:
  "u_is_consumed rename = None \<and> u_consumed_date rename = None \<and> u_quantity rename = None
   \<and> select_item [eggs_row] ''x1'' ''alice'' = Some eggs_row
   \<and> update_grocery request_env [eggs_row] ''alice'' ''x1'' rename
       = (Inr (grocery_to_response renamed_row), [renamed_row])
   \<and> g_updated_at eggs_row = 20
   \<and> g_updated_at renamed_row = 501"
proof -
  have "u_is_consumed rename = None \<and> u_consumed_date rename = None \<and> u_quantity rename = None"
    by (simp add: rename_def)
  moreover have "g_updated_at eggs_row = 20" "g_updated_at renamed_row = 501"
    by (simp_all add: eggs_row_def renamed_row_def)
  ultimately show ?thesis
    using select_eggs update_rename by simp
qed

text \<open>
  C10, amended. A PATCH of an item that the caller owns modifies only the fields present
  in the request body and the timestamp \<open>updated_at\<close>, which the database maintains:
  every field omitted from the request (\<open>is_consumed\<close>, \<open>consumed_date\<close> and
  \<open>created_at\<close> among them) keeps its stored value, and so does every other record.
  When the item does not exist under the caller the 404 is raised, and whenever the
  request fails the committed table is unchanged.
\<close>

theorem update_grocery_frame:
  "(select_item db item_id u = None \<longrightarrow>
      update_grocery e db u item_id upd = (Inl (HTTPException 404), db))
   \<and> (fst (update_grocery e db u item_id upd) = Inl ex \<longrightarrow>
        snd (update_grocery e db u item_id upd) = db)
   \<and> (pk db \<and> select_item db item_id u = Some item
        \<and> update_grocery e db u item_id upd = (Inr resp, db') \<longrightarrow>
        (\<exists>item'. select_item db' item_id u = Some item' \<and> resp = grocery_to_response item'
           \<and> omitted_fields_retained upd item item'
           \<and> (\<forall>j v. j \<noteq> item_id \<longrightarrow> select_item db' j v = select_item db j v)))"
proof -
  have missing: "update_grocery e db u item_id upd = (Inl (HTTPException 404), db)"
    if "select_item db item_id u = None"
    using that by (simp add: update_grocery_def get_db_def)
  from missing update_grocery_InlD [of e db u item_id upd ex]
    update_grocery_found [of db item_id u item e upd resp db']
  show ?thesis by blast
qed

theorem update_grocery_frame_witness:
  "select_item [eggs_row] ''zz'' ''alice'' = None
   \<and> update_grocery request_env [eggs_row] ''alice'' ''zz'' rename
       = (Inl (HTTPException 404), [eggs_row])
   \<and> fst (update_grocery request_env [eggs_row] ''bob'' ''x1'' rename) = Inl (HTTPException 404)
   \<and> snd (update_grocery request_env [eggs_row] ''bob'' ''x1'' rename) = [eggs_row]
   \<and> pk [eggs_row]
   \<and> select_item [eggs_row] ''x1'' ''alice'' = Some eggs_row
   \<and> update_grocery request_env [eggs_row] ''alice'' ''x1'' rename
       = (Inr (grocery_to_response renamed_row), [renamed_row])
   \<and> select_item [renamed_row] ''x1'' ''alice'' = Some renamed_row
   \<and> g_is_consumed renamed_row = g_is_consumed eggs_row
   \<and> g_consumed_date renamed_row = g_consumed_date eggs_row
   \<and> g_created_at renamed_row = g_created_at eggs_row
   \<and> g_quantity renamed_row = g_quantity eggs_row
   \<and> g_notes renamed_row = g_notes eggs_row"
proof -
  have m: "select_item [eggs_row] ''zz'' ''alice'' = None"
    by (simp add: select_item_def eggs_row_def)
  have b: "fst (update_grocery request_env [eggs_row] ''bob'' ''x1'' rename)
           = Inl (HTTPException 404)"
    by (simp add: update_grocery_def get_db_def select_item_def eggs_row_def)
  have unset: "u_is_consumed rename = None" "u_consumed_date rename = None"
    "u_quantity rename = None" "u_notes rename = None"
    by (simp_all add: rename_def)
  from update_grocery_frame [of "[eggs_row]" "''zz''" "''alice''" request_env rename] m
  have n: "update_grocery request_env [eggs_row] ''alice'' ''zz'' rename
       = (Inl (HTTPException 404), [eggs_row])"
    by blast
  from update_grocery_frame [of "[eggs_row]" "''x1''" "''bob''" request_env rename
      "HTTPException 404"] b
  have f: "snd (update_grocery request_env [eggs_row] ''bob'' ''x1'' rename) = [eggs_row]"
    by blast
  from update_grocery_frame [of "[eggs_row]" "''x1''" "''alice''" request_env rename
      ValidationError eggs_row "grocery_to_response renamed_row" "[renamed_row]"]
    pk_eggs select_eggs update_rename
  obtain item' where i: "select_item [renamed_row] ''x1'' ''alice'' = Some item'"
    and r: "omitted_fields_retained rename eggs_row item'"
    by blast
  have s: "select_item [renamed_row] ''x1'' ''alice'' = Some renamed_row"
    by (simp add: select_item_def renamed_row_def eggs_row_def)
  with i have "item' = renamed_row" by simp
  with r unset have k: "g_is_consumed renamed_row = g_is_consumed eggs_row"
    "g_consumed_date renamed_row = g_consumed_date eggs_row"
    "g_created_at renamed_row = g_created_at eggs_row"
    "g_quantity renamed_row = g_quantity eggs_row"
    "g_notes renamed_row = g_notes eggs_row"
    by (simp_all add: omitted_fields_retained_def)
  from m n b f pk_eggs select_eggs update_rename s k show ?thesis by blast
qed

end
